theory Spec2Isabelle
  imports Complex_Main
begin

section \<open>The snake engine of app.js (class SnakeGame)\<close>

text \<open>
  A shallow embedding of the game engine in \<^verbatim>\<open>src/app.js\<close>.  The SnakeGame object
  becomes the record \<open>game\<close>; every method becomes a function from the state before
  the call to the state after it.  The JavaScript numbers that hold the
  grid size, the score, the tick interval and the coordinates of the food are integers
  here; the food's \<^verbatim>\<open>scale\<close> is a rational (the rounding of the IEEE doubles behind
  \<open>0.15\<close> is not modelled; no property below depends on it).
\<close>

subsection \<open>Values of JavaScript\<close>

text \<open>
  A coordinate of a snake cell is an integer or \<^verbatim>\<open>NaN\<close>: the head moves by
  \<^verbatim>\<open>head.x + this.direction.x\<close>, and the sum is \<^verbatim>\<open>NaN\<close> when the direction has no
  \<^verbatim>\<open>x\<close> or the head is \<^verbatim>\<open>NaN\<close> already.  A comparison with \<^verbatim>\<open>NaN\<close> is false.
\<close>

datatype number = Num int | NaN

text \<open>\<^verbatim>\<open>a + b\<close>, where \<open>b\<close> is an integer or (\<open>None\<close>) \<^verbatim>\<open>undefined\<close>.\<close>

fun plus_number :: "number \<Rightarrow> int option \<Rightarrow> number" where
  "plus_number (Num a) (Some b) = Num (a + b)"
| "plus_number a b = NaN"

text \<open>\<^verbatim>\<open>a < b\<close>, \<^verbatim>\<open>a >= b\<close> and \<^verbatim>\<open>a === b\<close>.\<close>

fun less_number :: "number \<Rightarrow> int \<Rightarrow> bool" where
  "less_number (Num a) b = (a < b)"
| "less_number NaN b = False"

fun ge_number :: "number \<Rightarrow> int \<Rightarrow> bool" where
  "ge_number (Num a) b = (a \<ge> b)"
| "ge_number NaN b = False"

fun eq_number :: "number \<Rightarrow> number \<Rightarrow> bool" where
  "eq_number (Num a) (Num b) = (a = b)"
| "eq_number a b = False"

text \<open>
  \<^verbatim>\<open>a + b === 0\<close> for two values that are integers or \<^verbatim>\<open>undefined\<close>: a sum with
  \<^verbatim>\<open>undefined\<close> is \<^verbatim>\<open>NaN\<close>, which is not 0.
\<close>

fun sum_is_zero :: "int option \<Rightarrow> int option \<Rightarrow> bool" where
  "sum_is_zero (Some a) (Some b) = (a + b = 0)"
| "sum_is_zero a b = False"

text \<open>
  The value of \<^verbatim>\<open>obj[key]\<close> for an object \<open>obj\<close> written as a literal or made by
  \<^verbatim>\<open>JSON.parse\<close>: the object's own property of that name; or else, for a name that
  \<^verbatim>\<open>Object.prototype\<close> defines, the member inherited from there (a function, or for
  \<^verbatim>\<open>__proto__\<close> the prototype itself: a truthy value without properties \<^verbatim>\<open>x\<close>, \<^verbatim>\<open>y\<close>
  or \<^verbatim>\<open>scores\<close>); or else \<^verbatim>\<open>undefined\<close>, which is \<open>None\<close>.
\<close>

datatype 'a property = Own 'a | Inherited string

definition object_prototype_keys :: "string list" where
  "object_prototype_keys =
     [''constructor'', ''__defineGetter__'', ''__defineSetter__'', ''hasOwnProperty'',
      ''__lookupGetter__'', ''__lookupSetter__'', ''isPrototypeOf'', ''propertyIsEnumerable'',
      ''toString'', ''valueOf'', ''__proto__'', ''toLocaleString'']"

definition object_get :: "(string \<rightharpoonup> 'a) \<Rightarrow> string \<Rightarrow> 'a property option" where
  "object_get own key =
     (case own key of
        Some v \<Rightarrow> Some (Own v)
      | None \<Rightarrow> if key \<in> set object_prototype_keys then Some (Inherited key) else None)"

text \<open>
  The own enumerable properties of a value, as the spread \<^verbatim>\<open>{ ...value }\<close> copies them
  and as a property access finds them: those of the object itself, or none (\<open>None\<close>, the
  empty object) for a member of \<^verbatim>\<open>Object.prototype\<close>.
\<close>

fun spread :: "'a property \<Rightarrow> 'a option" where
  "spread (Own v) = Some v"
| "spread (Inherited k) = None"

subsection \<open>Data\<close>

text \<open>
  A snake cell \<^verbatim>\<open>{x, y}\<close> is a pair of numbers.  A vector \<^verbatim>\<open>{x, y}\<close> of the table of
  directions is a pair of integers; the applied direction is such a vector or the
  empty object \<^verbatim>\<open>{}\<close> (\<open>None\<close>), the pending direction is whatever the table gave.
\<close>

type_synonym cell = "number \<times> number"

type_synonym vector = "int \<times> int"

text \<open>
  The food object \<^verbatim>\<open>{x, y, type, scale}\<close>.  Only \<^verbatim>\<open>generateFood\<close> makes one, so its type
  is one of the six entries of \<^verbatim>\<open>types\<close>, or \<^verbatim>\<open>undefined\<close> (\<open>None\<close>) for an index
  outside the array.
\<close>

datatype food_kind = Apple | Hamster | Rabbit | Bird | Chicken | Duck

record food =
  food_x :: int
  food_y :: int
  food_type :: "food_kind option"
  food_scale :: rat

text \<open>The calls on the 2D context that \<^verbatim>\<open>draw\<close> makes for the food sprite.\<close>

datatype canvas_op =
    ShadowColor string
  | ShadowBlur rat
  | Save
  | Translate rat rat
  | Scale rat rat
  | DrawImage string rat rat rat rat
  | Restore

text \<open>
  What the engine does to the outside: the two callbacks and the frames it draws, in
  the order in which they happen.
\<close>

datatype event =
    ScoreChange int
  | GameOver int
  | Draw "canvas_op list"

datatype js_error = TypeError

text \<open>
  The fields of a SnakeGame, followed by the host's side of the timers: \<open>timers\<close> is the
  table of the intervals that are active (handle and period), \<open>next_timer\<close> the handle
  that the next \<^verbatim>\<open>setInterval\<close> returns, and \<open>events\<close> the log of callbacks and frames.
  \<open>onScoreChange\<close> and \<open>onGameOver\<close> say whether a callback is registered (not null).
\<close>

record game =
  gridSize :: int
  cols :: int
  rows :: int
  snake :: "cell list"
  food :: "food option"
  direction :: "vector option"
  nextDirection :: "vector property"
  score :: int
  gameLoop :: "nat option"
  isRunning :: bool
  isPaused :: bool
  speed :: int
  onScoreChange :: bool
  onGameOver :: bool
  timers :: "(nat \<times> int) list"
  next_timer :: nat
  events :: "event list"

text \<open>
  One draw of the random source: the three values of \<^verbatim>\<open>Math.random()\<close> that one
  iteration of \<^verbatim>\<open>generateFood\<close> reads, for x, y and the type.
\<close>

type_synonym sample = "rat \<times> rat \<times> rat"

subsection \<open>Constructor\<close>

text \<open>
  \<^verbatim>\<open>new SnakeGame(canvas)\<close> for a canvas of the given pixel size.  Browsers number
  interval handles from 1.
\<close>

definition new_game :: "int \<Rightarrow> int \<Rightarrow> game" where
  "new_game width height =
     \<lparr> gridSize = 20,
       cols = width div 20,
       rows = height div 20,
       snake = [],
       food = None,
       direction = Some (1, 0),
       nextDirection = Own (1, 0),
       score = 0,
       gameLoop = None,
       isRunning = False,
       isPaused = False,
       speed = 120,
       onScoreChange = False,
       onGameOver = False,
       timers = [],
       next_timer = 1,
       events = [] \<rparr>"

subsection \<open>Timers of the host\<close>

definition setInterval :: "int \<Rightarrow> game \<Rightarrow> nat \<times> game" where
  "setInterval ms s =
     (next_timer s,
      s\<lparr>timers := timers s @ [(next_timer s, ms)], next_timer := next_timer s + 1\<rparr>)"

definition clearInterval :: "nat option \<Rightarrow> game \<Rightarrow> game" where
  "clearInterval h s =
     (case h of
        None \<Rightarrow> s
      | Some i \<Rightarrow> s\<lparr>timers := filter (\<lambda>t. fst t \<noteq> i) (timers s)\<rparr>)"

subsection \<open>Drawing the food\<close>

text \<open>
  The keys of \<^verbatim>\<open>this.images\<close>, and the part of \<^verbatim>\<open>draw\<close> that renders the food
  (the block under \<^verbatim>\<open>if (this.food)\<close>).  The background, the grid lines and the snake
  segments that \<^verbatim>\<open>draw\<close> paints as well are left out: they read no field that they
  write, and nothing below is about them.
\<close>

fun kind_name :: "food_kind \<Rightarrow> string" where
  "kind_name Apple = ''apple''"
| "kind_name Hamster = ''hamster''"
| "kind_name Rabbit = ''rabbit''"
| "kind_name Bird = ''bird''"
| "kind_name Chicken = ''chicken''"
| "kind_name Duck = ''duck''"

text \<open>
  \<^verbatim>\<open>this.images[this.food.type] || this.images.apple\<close>: every food type is a key of
  \<^verbatim>\<open>this.images\<close>; for the type \<^verbatim>\<open>undefined\<close> the lookup finds nothing.
\<close>

definition foodImg :: "food \<Rightarrow> string" where
  "foodImg f =
     (case food_type f of
        None \<Rightarrow> ''apple''
      | Some t \<Rightarrow> kind_name t)"

text \<open>\<^verbatim>\<open>const scale = this.food.scale || 1\<close>: the number 0 is falsy.\<close>

definition draw_scale :: "food \<Rightarrow> rat" where
  "draw_scale f = (if food_scale f = 0 then 1 else food_scale f)"

definition draw :: "game \<Rightarrow> canvas_op list" where
  "draw s =
     (case food s of
        None \<Rightarrow> []
      | Some f \<Rightarrow>
          (let size = of_int (gridSize s);
               fx = of_int (food_x f) * size;
               fy = of_int (food_y f) * size;
               scale = draw_scale f
           in [ ShadowColor (if food_type f = Some Apple then ''#d946ef'' else ''#fbbf24''),
                ShadowBlur (15 * scale),
                Save,
                Translate (fx + size / 2) (fy + size / 2),
                Scale scale scale,
                DrawImage (foodImg f) (- size / 2) (- size / 2) size size,
                Restore,
                ShadowBlur 0 ]))"

text \<open>A call of \<^verbatim>\<open>this.draw()\<close>: the frame goes to the log.\<close>

definition do_draw :: "game \<Rightarrow> game" where
  "do_draw s = s\<lparr>events := events s @ [Draw (draw s)]\<rparr>"

subsection \<open>Food placement\<close>

definition isOnSnake :: "cell list \<Rightarrow> number \<Rightarrow> number \<Rightarrow> bool" where
  "isOnSnake sn px py =
     list_ex (\<lambda>segment. eq_number (fst segment) px \<and> eq_number (snd segment) py) sn"

definition types :: "food_kind list" where
  "types = [Apple, Hamster, Rabbit, Bird, Chicken, Duck]"

definition maxAttempts :: nat where
  "maxAttempts = 100"

text \<open>The object literal that one iteration of the loop assigns to \<^verbatim>\<open>this.food\<close>.\<close>

definition sample_food :: "int \<Rightarrow> int \<Rightarrow> sample \<Rightarrow> food" where
  "sample_food c r u =
     (case u of (ux, uy, ut) \<Rightarrow>
        \<lparr> food_x = \<lfloor>ux * of_int c\<rfloor>,
          food_y = \<lfloor>uy * of_int r\<rfloor>,
          food_type =
            (let k = \<lfloor>ut * of_int (int (length types))\<rfloor>
             in if 0 \<le> k \<and> k < int (length types) then Some (types ! nat k) else None),
          food_scale = 0 \<rparr>)"

text \<open>
  The do-while loop of \<^verbatim>\<open>generateFood\<close>.  \<open>rnd i\<close> is what the random source gives to
  the iteration that starts with \<^verbatim>\<open>attempts = i\<close>.  The result is the food that was
  assigned last and the final value of \<^verbatim>\<open>attempts\<close>, which counts the samples taken.
\<close>

function generateFood_loop ::
  "cell list \<Rightarrow> int \<Rightarrow> int \<Rightarrow> (nat \<Rightarrow> sample) \<Rightarrow> nat \<Rightarrow> food \<times> nat" where
  "generateFood_loop sn c r rnd attempts =
     (if isOnSnake sn (Num (food_x (sample_food c r (rnd attempts))))
                      (Num (food_y (sample_food c r (rnd attempts))))
         \<and> attempts + 1 < maxAttempts
      then generateFood_loop sn c r rnd (attempts + 1)
      else (sample_food c r (rnd attempts), attempts + 1))"
  by pat_completeness auto
termination
  by (relation "measure (\<lambda>(sn, c, r, rnd, attempts). maxAttempts - attempts)") auto

declare generateFood_loop.simps [simp del]

definition generateFood :: "game \<Rightarrow> (nat \<Rightarrow> sample) \<Rightarrow> game" where
  "generateFood s rnd =
     s\<lparr>food := Some (fst (generateFood_loop (snake s) (cols s) (rows s) rnd 0))\<rparr>"

subsection \<open>Commands\<close>

definition init :: "game \<Rightarrow> (nat \<Rightarrow> sample) \<Rightarrow> game" where
  "init s rnd =
     (let startX = cols s div 2;
          startY = rows s div 2;
          s1 = s\<lparr>snake := [(Num startX, Num startY), (Num (startX - 1), Num startY),
                           (Num (startX - 2), Num startY)]\<rparr>;
          s2 = s1\<lparr>direction := Some (1, 0), nextDirection := Own (1, 0)\<rparr>;
          s3 = s2\<lparr>score := 0\<rparr>;
          s4 = (if onScoreChange s3 then s3\<lparr>events := events s3 @ [ScoreChange (score s3)]\<rparr>
                else s3);
          s5 = generateFood s4 rnd
      in do_draw s5)"

definition start :: "game \<Rightarrow> (nat \<Rightarrow> sample) \<Rightarrow> game" where
  "start s rnd =
     (if isRunning s \<and> \<not> isPaused s then s
      else
        (let s1 = (if isPaused s then s\<lparr>isPaused := False\<rparr> else init s rnd);
             s2 = s1\<lparr>isRunning := True\<rparr>;
             (h, s3) = setInterval (speed s2) s2
         in s3\<lparr>gameLoop := Some h\<rparr>))"

definition pause :: "game \<Rightarrow> game" where
  "pause s =
     (if \<not> isRunning s \<or> isPaused s then s
      else
        (let s1 = s\<lparr>isPaused := True\<rparr>;
             s2 = clearInterval (gameLoop s1) s1
         in s2\<lparr>gameLoop := None\<rparr>))"

definition resume :: "game \<Rightarrow> game" where
  "resume s =
     (if \<not> isPaused s then s
      else
        (let s1 = s\<lparr>isPaused := False\<rparr>;
             (h, s2) = setInterval (speed s1) s1
         in s2\<lparr>gameLoop := Some h\<rparr>))"

text \<open>\<^verbatim>\<open>if (this.gameLoop)\<close> is false for null and for the handle 0.\<close>

definition stop :: "game \<Rightarrow> game" where
  "stop s =
     (let s1 = s\<lparr>isRunning := False, isPaused := False\<rparr>
      in case gameLoop s1 of
           None \<Rightarrow> s1
         | Some h \<Rightarrow>
             if h \<noteq> 0 then (clearInterval (gameLoop s1) s1)\<lparr>gameLoop := None\<rparr> else s1)"

text \<open>
  The lookup \<^verbatim>\<open>directions[dir]\<close> in the table of \<^verbatim>\<open>setDirection\<close>.  For a name that
  the table inherits, such as \<^verbatim>\<open>constructor\<close>, the value is truthy and has no \<^verbatim>\<open>x\<close>
  and \<^verbatim>\<open>y\<close>: it passes both tests and becomes the pending direction.
\<close>

definition directions :: "string \<Rightarrow> vector property option" where
  "directions =
     object_get
       (map_of [(''up'', (0, - 1)), (''down'', (0, 1)), (''left'', (- 1, 0)), (''right'', (1, 0))])"

definition setDirection :: "game \<Rightarrow> string \<Rightarrow> game" where
  "setDirection s dir =
     (case directions dir of
        None \<Rightarrow> s
      | Some newDir \<Rightarrow>
          if sum_is_zero (map_option fst (direction s)) (map_option fst (spread newDir)) \<and>
             sum_is_zero (map_option snd (direction s)) (map_option snd (spread newDir))
          then s
          else s\<lparr>nextDirection := newDir\<rparr>)"

subsection \<open>The tick\<close>

definition gameOver :: "game \<Rightarrow> game" where
  "gameOver s =
     (let s1 = stop s
      in if onGameOver s1 then s1\<lparr>events := events s1 @ [GameOver (score s1)]\<rparr> else s1)"

text \<open>The branch of \<^verbatim>\<open>update\<close> that runs when the new head is on the food.\<close>

definition eat :: "game \<Rightarrow> (nat \<Rightarrow> sample) \<Rightarrow> game" where
  "eat s rnd =
     (let s1 = s\<lparr>score := score s + 10\<rparr>;
          s2 = (if onScoreChange s1 then s1\<lparr>events := events s1 @ [ScoreChange (score s1)]\<rparr>
                else s1);
          s3 = generateFood s2 rnd
      in if speed s3 > 60 then
           (let s4 = s3\<lparr>speed := speed s3 - 2\<rparr>;
                s5 = clearInterval (gameLoop s4) s4;
                (h, s6) = setInterval (speed s5) s5
            in s6\<lparr>gameLoop := Some h\<rparr>)
         else s3)"

text \<open>The last statement of \<^verbatim>\<open>update\<close>: the spawn animation of the food.\<close>

definition animate :: "game \<Rightarrow> game" where
  "animate s =
     (case food s of
        None \<Rightarrow> s
      | Some f \<Rightarrow>
          if food_scale f < 1
          then s\<lparr>food := Some (f\<lparr>food_scale := min 1 (food_scale f + 15 / 100)\<rparr>)\<rparr>
          else s)"

text \<open>
  \<^verbatim>\<open>update()\<close>.  Reading \<^verbatim>\<open>head.x\<close> of an empty snake, or \<^verbatim>\<open>this.food.x\<close> when the
  food is null, throws a TypeError.
\<close>

definition update :: "game \<Rightarrow> (nat \<Rightarrow> sample) \<Rightarrow> js_error + game" where
  "update s rnd =
     (let s1 = s\<lparr>direction := spread (nextDirection s)\<rparr>
      in case snake s1 of
           [] \<Rightarrow> Inl TypeError
         | head # _ \<Rightarrow>
             (let newHead = (plus_number (fst head) (map_option fst (direction s1)),
                             plus_number (snd head) (map_option snd (direction s1)))
              in if less_number (fst newHead) 0 \<or> ge_number (fst newHead) (cols s1) \<or>
                    less_number (snd newHead) 0 \<or> ge_number (snd newHead) (rows s1)
                 then Inr (gameOver s1)
                 else if isOnSnake (snake s1) (fst newHead) (snd newHead)
                 then Inr (gameOver s1)
                 else
                   (let s2 = s1\<lparr>snake := newHead # snake s1\<rparr>
                    in case food s2 of
                         None \<Rightarrow> Inl TypeError
                       | Some f \<Rightarrow>
                           (let s3 = (if eq_number (fst newHead) (Num (food_x f)) \<and>
                                         eq_number (snd newHead) (Num (food_y f))
                                      then eat s2 rnd
                                      else s2\<lparr>snake := butlast (snake s2)\<rparr>)
                            in Inr (animate (do_draw s3))))))"

subsection \<open>The input handlers of UIController\<close>

text \<open>
  The handlers of UIController that drive the game, without what they do to the page.
  The game object exists once \<^verbatim>\<open>initGame\<close> has run, so the test \<^verbatim>\<open>!this.game\<close> is
  false.

  \<^verbatim>\<open>handleKeyDown\<close> and the click handler of the mobile control buttons (in
  \<^verbatim>\<open>bindEvents\<close>) are the two places that call \<^verbatim>\<open>setDirection\<close>.  When \<^verbatim>\<open>keyMap[e.key]\<close>
  is an inherited member, \<^verbatim>\<open>setDirection\<close> receives that member; as a property name it
  is its text (\<^verbatim>\<open>function Object() { [native code] }\<close> and the like), which the table
  of directions neither has nor inherits, and \<^verbatim>\<open>setDirection\<close> returns at once.
\<close>

definition keyMap :: "string \<Rightarrow> string property option" where
  "keyMap =
     object_get
       (map_of [(''ArrowUp'', ''up''), (''ArrowDown'', ''down''), (''ArrowLeft'', ''left''),
                (''ArrowRight'', ''right''), (''w'', ''up''), (''W'', ''up''), (''s'', ''down''),
                (''S'', ''down''), (''a'', ''left''), (''A'', ''left''), (''d'', ''right''),
                (''D'', ''right'')])"

definition handleKeyDown :: "game \<Rightarrow> string \<Rightarrow> game" where
  "handleKeyDown g key =
     (if \<not> isRunning g \<or> isPaused g then g
      else case keyMap key of
             None \<Rightarrow> g
           | Some (Own dir) \<Rightarrow> setDirection g dir
           | Some (Inherited k) \<Rightarrow> g)"

definition mobileControlClick :: "game \<Rightarrow> string \<Rightarrow> game" where
  "mobileControlClick g dir =
     (if isRunning g \<and> \<not> isPaused g then setDirection g dir else g)"

text \<open>
  \<^verbatim>\<open>handleStartGame\<close>, the click handler of the start button, which it relabels
  to restart: it sets \<^verbatim>\<open>this.game.speed = 120\<close> and calls \<^verbatim>\<open>this.game.start()\<close>.
  \<^verbatim>\<open>handlePauseGame\<close>, the click handler of the pause button.
\<close>

definition handleStartGame :: "game \<Rightarrow> (nat \<Rightarrow> sample) \<Rightarrow> game" where
  "handleStartGame g rnd = start (g\<lparr>speed := 120\<rparr>) rnd"

definition handlePauseGame :: "game \<Rightarrow> game" where
  "handlePauseGame g =
     (if \<not> isRunning g then g
      else if isPaused g then resume g
      else pause g)"

subsection \<open>Runs of the engine\<close>

text \<open>
  The public commands of a SnakeGame together with the start button of the page (the
  one handler that writes a field of the game itself), and the states that a game can be
  in: the constructor's state with any choice of registered callbacks, followed by
  commands and by ticks.  A tick is a call of \<^verbatim>\<open>update\<close> by an interval that is still
  active.
\<close>

datatype command =
    Init "nat \<Rightarrow> sample"
  | Start "nat \<Rightarrow> sample"
  | Pause
  | Resume
  | Stop
  | SetDirection string
  | HandleStartGame "nat \<Rightarrow> sample"

fun exec :: "command \<Rightarrow> game \<Rightarrow> game" where
  "exec (Init rnd) s = init s rnd"
| "exec (Start rnd) s = start s rnd"
| "exec Pause s = pause s"
| "exec Resume s = resume s"
| "exec Stop s = stop s"
| "exec (SetDirection dir) s = setDirection s dir"
| "exec (HandleStartGame rnd) s = handleStartGame s rnd"

inductive reachable :: "game \<Rightarrow> bool" where
  constructed:
    "reachable ((new_game width height)\<lparr>onScoreChange := sc, onGameOver := go\<rparr>)"
| command: "reachable s \<Longrightarrow> reachable (exec c s)"
| tick: "reachable s \<Longrightarrow> timers s \<noteq> [] \<Longrightarrow> update s rnd = Inr s' \<Longrightarrow> reachable s'"

text \<open>
  The cell that the next tick moves the head to, and whether that tick ends the game
  (the two tests of \<^verbatim>\<open>update\<close> that call \<^verbatim>\<open>gameOver\<close>) or eats the food.
\<close>

definition next_head :: "game \<Rightarrow> cell option" where
  "next_head s =
     (case snake s of
        [] \<Rightarrow> None
      | head # _ \<Rightarrow>
          Some (plus_number (fst head) (map_option fst (spread (nextDirection s))),
                plus_number (snd head) (map_option snd (spread (nextDirection s)))))"

definition collides :: "game \<Rightarrow> bool" where
  "collides s =
     (case next_head s of
        None \<Rightarrow> False
      | Some n \<Rightarrow> less_number (fst n) 0 \<or> ge_number (fst n) (cols s) \<or>
                  less_number (snd n) 0 \<or> ge_number (snd n) (rows s) \<or>
                  isOnSnake (snake s) (fst n) (snd n))"

definition eats :: "game \<Rightarrow> bool" where
  "eats s =
     (case next_head s of
        None \<Rightarrow> False
      | Some n \<Rightarrow>
          (case food s of
             None \<Rightarrow> False
           | Some f \<Rightarrow> \<not> collides s \<and> n = (Num (food_x f), Num (food_y f))))"

text \<open>
  The exact opposite of a direction, as \<^verbatim>\<open>setDirection\<close> tests it: both are vectors
  and their sum is (0,0).
\<close>

definition opposite :: "vector option \<Rightarrow> vector option \<Rightarrow> bool" where
  "opposite d e =
     (sum_is_zero (map_option fst d) (map_option fst e) \<and>
      sum_is_zero (map_option snd d) (map_option snd e))"

section \<open>The profile store (object DataStore)\<close>

text \<open>
  What \<^verbatim>\<open>localStorage\<close> holds under \<^verbatim>\<open>STORAGE_KEY\<close>: nothing, a string that
  \<^verbatim>\<open>JSON.parse\<close> rejects, or the JSON of a data object \<^verbatim>\<open>{users, currentUser}\<close>.  A
  user object may lack any of its fields.  \<open>writable\<close> says whether \<^verbatim>\<open>setItem\<close>
  succeeds (it throws when the quota is exceeded, and \<^verbatim>\<open>saveData\<close> swallows that).
\<close>

record score_record =
  rec_score :: int
  rec_date :: string

record user =
  password :: "string option"
  loginHistory :: "string list option"
  scores :: "score_record list option"
  createdAt :: "string option"

record store_data =
  users :: "string \<rightharpoonup> user"
  currentUser :: "string option"

datatype stored = Missing | Corrupt | Data store_data

record localStorage =
  item :: stored
  writable :: bool

definition getData :: "localStorage \<Rightarrow> store_data" where
  "getData ls =
     (case item ls of
        Data d \<Rightarrow> d
      | _ \<Rightarrow> \<lparr>users = Map.empty, currentUser = None\<rparr>)"

definition saveData :: "localStorage \<Rightarrow> store_data \<Rightarrow> localStorage" where
  "saveData ls d = (if writable ls then ls\<lparr>item := Data d\<rparr> else ls)"

text \<open>
  \<^verbatim>\<open>data.users[username] || null\<close>: the user's record when the object \<^verbatim>\<open>users\<close> has
  one of that name; the inherited member for a name such as \<^verbatim>\<open>toString\<close> that only
  \<^verbatim>\<open>Object.prototype\<close> defines (it is truthy); and \<^verbatim>\<open>null\<close> (\<open>None\<close>) otherwise.
\<close>

definition getUser :: "localStorage \<Rightarrow> string \<Rightarrow> user property option" where
  "getUser ls username = object_get (users (getData ls)) username"

text \<open>
  \<^verbatim>\<open>data.users[username] = userData\<close> writes an own property, except for the name
  \<^verbatim>\<open>__proto__\<close> when the object has no own property of that name: then the assignment
  replaces the prototype of \<^verbatim>\<open>users\<close>, which \<^verbatim>\<open>JSON.stringify\<close> does not write out.
\<close>

definition saveUser :: "localStorage \<Rightarrow> string \<Rightarrow> user \<Rightarrow> localStorage" where
  "saveUser ls username userData =
     (let d = getData ls
      in if username = ''__proto__'' \<and> users d username = None then saveData ls d
         else saveData ls (d\<lparr>users := (users d)(username \<mapsto> userData)\<rparr>))"

text \<open>
  \<^verbatim>\<open>addScore(username, score)\<close>; \<open>now\<close> is \<^verbatim>\<open>new Date().toISOString()\<close>.  The call
  \<^verbatim>\<open>user.scores.unshift(record)\<close> throws a TypeError when \<^verbatim>\<open>user.scores\<close> is
  \<^verbatim>\<open>undefined\<close>: for a record without that field, and for an inherited member.
\<close>

definition addScore :: "localStorage \<Rightarrow> string \<Rightarrow> int \<Rightarrow> string \<Rightarrow> js_error + localStorage" where
  "addScore ls username sc now =
     (case getUser ls username of
        None \<Rightarrow> Inr ls
      | Some (Inherited k) \<Rightarrow> Inl TypeError
      | Some (Own u) \<Rightarrow>
          (let record = \<lparr>rec_score = sc, rec_date = now\<rparr>
           in case scores u of
                None \<Rightarrow> Inl TypeError
              | Some old \<Rightarrow>
                  (let unshifted = record # old;
                       u1 = u\<lparr>scores := Some (if length unshifted > 20
                                                then take 20 unshifted else unshifted)\<rparr>
                   in Inr (saveUser ls username u1))))"

section \<open>Auxiliary notions\<close>

subsection \<open>Properties of states\<close>

text \<open>
  Whether the cell of a sample lies on the snake; the discipline of the timer (the
  interval that \<^verbatim>\<open>gameLoop\<close> holds is the only active one, it exists only while the
  game runs unpaused, and a running game has a snake and a food); the pending direction
  is one of the four unit vectors or an inherited member, and not the opposite of the
  applied one; the bounds of the tick interval; the relation of score and length; a game without a timer; and the
  number of game-over callbacks in the log.
\<close>

definition on_snake :: "cell list \<Rightarrow> int \<Rightarrow> int \<Rightarrow> sample \<Rightarrow> bool" where
  "on_snake sn c r u =
     isOnSnake sn (Num (food_x (sample_food c r u))) (Num (food_y (sample_food c r u)))"

definition timer_ok :: "game \<Rightarrow> bool" where
  "timer_ok s =
     ((case gameLoop s of
         None \<Rightarrow> timers s = []
       | Some h \<Rightarrow> 0 < h \<and> map fst (timers s) = [h]) \<and>
      0 < next_timer s \<and>
      (gameLoop s \<noteq> None \<longrightarrow> isRunning s \<and> \<not> isPaused s) \<and>
      (isPaused s \<longrightarrow> isRunning s) \<and>
      (isRunning s \<longrightarrow> snake s \<noteq> [] \<and> food s \<noteq> None))"



definition speed_ok :: "game \<Rightarrow> bool" where
  "speed_ok s = (even (speed s) \<and> 60 \<le> speed s \<and> speed s \<le> 120)"

definition score_ok :: "game \<Rightarrow> bool" where
  "score_ok s = (score s = 10 * (int (length (snake s)) - 3))"

definition idle :: "game \<Rightarrow> bool" where
  "idle s = (\<not> isRunning s \<and> \<not> isPaused s \<and> gameLoop s = None \<and> timers s = [])"

fun is_GameOver :: "event \<Rightarrow> bool" where
  "is_GameOver (GameOver n) = True"
| "is_GameOver e = False"

definition game_overs :: "game \<Rightarrow> nat" where
  "game_overs s = length (filter is_GameOver (events s))"

subsection \<open>Runs\<close>

text \<open>
  The commands that call \<^verbatim>\<open>start\<close> (\<open>starts\<close>), that can create an interval
  (\<open>restarts\<close>), and that leave the game in progress as it is (\<open>keeps_game\<close>).
  \<open>in_game\<close>: the states reached from a call of \<^verbatim>\<open>init\<close> by commands and by calls of
  \<^verbatim>\<open>update\<close>.
\<close>

fun starts :: "command \<Rightarrow> bool" where
  "starts (Start rnd) = True"
| "starts (HandleStartGame rnd) = True"
| "starts c = False"

fun restarts :: "command \<Rightarrow> bool" where
  "restarts (Start rnd) = True"
| "restarts (HandleStartGame rnd) = True"
| "restarts Resume = True"
| "restarts c = False"


inductive in_game :: "game \<Rightarrow> bool" where
  initial: "in_game (init s rnd)"
| command: "in_game s \<Longrightarrow> in_game (exec c s)"
| tick: "in_game s \<Longrightarrow> update s rnd = Inr s' \<Longrightarrow> in_game s'"

subsection \<open>Example inputs\<close>

text \<open>
  Random sources: one whose every sample is the cell (5,5), one whose first sample is
  (5,5) and whose later ones are (6,5), one that always gives (6,5) and one that always
  gives (1,5).  Games on a canvas of 200 by 200 pixels (a grid of 10 by 10) with both
  callbacks registered: constructed, started with the food at (6,5) or at (1,5), and
  paused; the first of the started games after the tick that eats its food; and a
  started game on a canvas of 20 by 20 pixels, a grid of one cell.  A storage with one
  user, and one whose user record has only a password.
\<close>

definition stuck_rnd :: "nat \<Rightarrow> sample" where
  "stuck_rnd i = (1 / 2, 1 / 2, 0)"

definition late_rnd :: "nat \<Rightarrow> sample" where
  "late_rnd i = (if i = 0 then (1 / 2, 1 / 2, 0) else (3 / 5, 1 / 2, 0))"

definition east_rnd :: "nat \<Rightarrow> sample" where
  "east_rnd i = (3 / 5, 1 / 2, 0)"

definition west_rnd :: "nat \<Rightarrow> sample" where
  "west_rnd i = (1 / 10, 1 / 2, 1 / 2)"

definition fresh_game :: game where
  "fresh_game = (new_game 200 200)\<lparr>onScoreChange := True, onGameOver := True\<rparr>"

definition started_game :: game where
  "started_game = start fresh_game east_rnd"

definition west_game :: game where
  "west_game = start fresh_game west_rnd"

definition paused_game :: game where
  "paused_game = pause (start fresh_game east_rnd)"

definition tiny_game :: game where
  "tiny_game = start ((new_game 20 20)\<lparr>onScoreChange := True, onGameOver := True\<rparr>) east_rnd"

definition fed_game :: game where
  "fed_game = (case update started_game west_rnd of Inr s \<Rightarrow> s | Inl e \<Rightarrow> started_game)"

definition demo_user :: user where
  "demo_user =
     \<lparr> password = Some ''pw'', loginHistory = Some [],
       scores = Some [\<lparr>rec_score = 30, rec_date = ''d1''\<rparr>], createdAt = Some ''d0'' \<rparr>"

definition demo_store :: localStorage where
  "demo_store =
     \<lparr> item = Data \<lparr>users = [''ann'' \<mapsto> demo_user], currentUser = Some ''ann''\<rparr>,
       writable = True \<rparr>"

definition legacy_user :: user where
  "legacy_user =
     \<lparr> password = Some ''pw'', loginHistory = None, scores = None, createdAt = None \<rparr>"

definition legacy_store :: localStorage where
  "legacy_store =
     \<lparr> item = Data \<lparr>users = [''ann'' \<mapsto> legacy_user], currentUser = Some ''ann''\<rparr>,
       writable = True \<rparr>"

section \<open>Basic facts about the engine\<close>

subsection \<open>Numbers and lookups\<close>

lemma eq_number_Num [simp]: "eq_number a (Num b) = (a = Num b)"
  by (cases a) simp_all


lemma directions_tokens:
  "directions ''up'' = Some (Own (0, - 1))" "directions ''down'' = Some (Own (0, 1))"
  "directions ''left'' = Some (Own (- 1, 0))" "directions ''right'' = Some (Own (1, 0))"
  by (simp_all add: directions_def object_get_def)

lemma opposite_vectors [simp]:
  "opposite (Some u) (Some v) = (fst u + fst v = 0 \<and> snd u + snd v = 0)"
  "opposite None e = False" "opposite d None = False"
  by (cases d; simp add: opposite_def)+

subsection \<open>The effect of each method on single fields\<close>

lemma generateFood_fields [simp]:
  "snake (generateFood s rnd) = snake s"
  "cols (generateFood s rnd) = cols s"
  "rows (generateFood s rnd) = rows s"
  "direction (generateFood s rnd) = direction s"
  "nextDirection (generateFood s rnd) = nextDirection s"
  "score (generateFood s rnd) = score s"
  "gameLoop (generateFood s rnd) = gameLoop s"
  "isRunning (generateFood s rnd) = isRunning s"
  "isPaused (generateFood s rnd) = isPaused s"
  "speed (generateFood s rnd) = speed s"
  "onScoreChange (generateFood s rnd) = onScoreChange s"
  "onGameOver (generateFood s rnd) = onGameOver s"
  "timers (generateFood s rnd) = timers s"
  "next_timer (generateFood s rnd) = next_timer s"
  "events (generateFood s rnd) = events s"
  "gridSize (generateFood s rnd) = gridSize s"
  "food (generateFood s rnd) = Some (fst (generateFood_loop (snake s) (cols s) (rows s) rnd 0))"
  by (simp_all add: generateFood_def)

lemma do_draw_fields [simp]:
  "snake (do_draw s) = snake s"
  "food (do_draw s) = food s"
  "cols (do_draw s) = cols s"
  "rows (do_draw s) = rows s"
  "direction (do_draw s) = direction s"
  "nextDirection (do_draw s) = nextDirection s"
  "score (do_draw s) = score s"
  "gameLoop (do_draw s) = gameLoop s"
  "isRunning (do_draw s) = isRunning s"
  "isPaused (do_draw s) = isPaused s"
  "speed (do_draw s) = speed s"
  "onScoreChange (do_draw s) = onScoreChange s"
  "onGameOver (do_draw s) = onGameOver s"
  "timers (do_draw s) = timers s"
  "next_timer (do_draw s) = next_timer s"
  "gridSize (do_draw s) = gridSize s"
  "events (do_draw s) = events s @ [Draw (draw s)]"
  by (simp_all add: do_draw_def)

lemma animate_fields [simp]:
  "snake (animate s) = snake s"
  "cols (animate s) = cols s"
  "rows (animate s) = rows s"
  "direction (animate s) = direction s"
  "nextDirection (animate s) = nextDirection s"
  "score (animate s) = score s"
  "gameLoop (animate s) = gameLoop s"
  "isRunning (animate s) = isRunning s"
  "isPaused (animate s) = isPaused s"
  "speed (animate s) = speed s"
  "onScoreChange (animate s) = onScoreChange s"
  "onGameOver (animate s) = onGameOver s"
  "timers (animate s) = timers s"
  "next_timer (animate s) = next_timer s"
  "events (animate s) = events s"
  "gridSize (animate s) = gridSize s"
  by (simp_all add: animate_def split: option.splits)

lemma animate_food: "(food (animate s) = None) = (food s = None)"
  by (simp add: animate_def split: option.splits)

lemma init_fields [simp]:
  "snake (init s rnd) =
     [(Num (cols s div 2), Num (rows s div 2)), (Num (cols s div 2 - 1), Num (rows s div 2)),
      (Num (cols s div 2 - 2), Num (rows s div 2))]"
  "cols (init s rnd) = cols s"
  "rows (init s rnd) = rows s"
  "direction (init s rnd) = Some (1, 0)"
  "nextDirection (init s rnd) = Own (1, 0)"
  "score (init s rnd) = 0"
  "gameLoop (init s rnd) = gameLoop s"
  "isRunning (init s rnd) = isRunning s"
  "isPaused (init s rnd) = isPaused s"
  "speed (init s rnd) = speed s"
  "onScoreChange (init s rnd) = onScoreChange s"
  "onGameOver (init s rnd) = onGameOver s"
  "timers (init s rnd) = timers s"
  "next_timer (init s rnd) = next_timer s"
  "gridSize (init s rnd) = gridSize s"
  "food (init s rnd) \<noteq> None"
  by (simp_all add: init_def Let_def)

lemma stop_fields [simp]:
  "snake (stop s) = snake s"
  "food (stop s) = food s"
  "cols (stop s) = cols s"
  "rows (stop s) = rows s"
  "direction (stop s) = direction s"
  "nextDirection (stop s) = nextDirection s"
  "score (stop s) = score s"
  "isRunning (stop s) = False"
  "isPaused (stop s) = False"
  "speed (stop s) = speed s"
  "onScoreChange (stop s) = onScoreChange s"
  "onGameOver (stop s) = onGameOver s"
  "next_timer (stop s) = next_timer s"
  "events (stop s) = events s"
  "gridSize (stop s) = gridSize s"
  by (simp_all add: stop_def clearInterval_def Let_def split: option.splits)

lemma gameOver_fields [simp]:
  "snake (gameOver s) = snake s"
  "food (gameOver s) = food s"
  "cols (gameOver s) = cols s"
  "rows (gameOver s) = rows s"
  "direction (gameOver s) = direction s"
  "nextDirection (gameOver s) = nextDirection s"
  "score (gameOver s) = score s"
  "isRunning (gameOver s) = False"
  "isPaused (gameOver s) = False"
  "speed (gameOver s) = speed s"
  "onScoreChange (gameOver s) = onScoreChange s"
  "onGameOver (gameOver s) = onGameOver s"
  "next_timer (gameOver s) = next_timer s"
  "gameLoop (gameOver s) = gameLoop (stop s)"
  "timers (gameOver s) = timers (stop s)"
  "gridSize (gameOver s) = gridSize s"
  "events (gameOver s) = events s @ (if onGameOver s then [GameOver (score s)] else [])"
  by (simp_all add: gameOver_def Let_def)

lemma eat_fields [simp]:
  "snake (eat s rnd) = snake s"
  "cols (eat s rnd) = cols s"
  "rows (eat s rnd) = rows s"
  "direction (eat s rnd) = direction s"
  "nextDirection (eat s rnd) = nextDirection s"
  "score (eat s rnd) = score s + 10"
  "isRunning (eat s rnd) = isRunning s"
  "isPaused (eat s rnd) = isPaused s"
  "speed (eat s rnd) = (if speed s > 60 then speed s - 2 else speed s)"
  "onScoreChange (eat s rnd) = onScoreChange s"
  "onGameOver (eat s rnd) = onGameOver s"
  "gridSize (eat s rnd) = gridSize s"
  "events (eat s rnd) = events s @ (if onScoreChange s then [ScoreChange (score s + 10)] else [])"
  "food (eat s rnd) = Some (fst (generateFood_loop (snake s) (cols s) (rows s) rnd 0))"
  by (simp_all add: eat_def Let_def setInterval_def clearInterval_def split: option.splits)

lemma setDirection_fields [simp]:
  "snake (setDirection s d) = snake s"
  "food (setDirection s d) = food s"
  "cols (setDirection s d) = cols s"
  "rows (setDirection s d) = rows s"
  "direction (setDirection s d) = direction s"
  "score (setDirection s d) = score s"
  "gameLoop (setDirection s d) = gameLoop s"
  "isRunning (setDirection s d) = isRunning s"
  "isPaused (setDirection s d) = isPaused s"
  "speed (setDirection s d) = speed s"
  "onScoreChange (setDirection s d) = onScoreChange s"
  "onGameOver (setDirection s d) = onGameOver s"
  "timers (setDirection s d) = timers s"
  "next_timer (setDirection s d) = next_timer s"
  "events (setDirection s d) = events s"
  "gridSize (setDirection s d) = gridSize s"
  by (simp_all add: setDirection_def split: option.splits)

lemma pause_fields [simp]:
  "snake (pause s) = snake s"
  "food (pause s) = food s"
  "cols (pause s) = cols s"
  "rows (pause s) = rows s"
  "direction (pause s) = direction s"
  "nextDirection (pause s) = nextDirection s"
  "score (pause s) = score s"
  "isRunning (pause s) = isRunning s"
  "speed (pause s) = speed s"
  "onScoreChange (pause s) = onScoreChange s"
  "onGameOver (pause s) = onGameOver s"
  "next_timer (pause s) = next_timer s"
  "events (pause s) = events s"
  "gridSize (pause s) = gridSize s"
  by (simp_all add: pause_def clearInterval_def Let_def split: option.splits)

lemma resume_fields [simp]:
  "snake (resume s) = snake s"
  "food (resume s) = food s"
  "cols (resume s) = cols s"
  "rows (resume s) = rows s"
  "direction (resume s) = direction s"
  "nextDirection (resume s) = nextDirection s"
  "score (resume s) = score s"
  "isRunning (resume s) = isRunning s"
  "isPaused (resume s) = False"
  "speed (resume s) = speed s"
  "onScoreChange (resume s) = onScoreChange s"
  "onGameOver (resume s) = onGameOver s"
  "events (resume s) = events s"
  "gridSize (resume s) = gridSize s"
  by (simp_all add: resume_def setInterval_def Let_def)

lemma start_fields [simp]:
  "cols (start s rnd) = cols s"
  "rows (start s rnd) = rows s"
  "speed (start s rnd) = speed s"
  "onScoreChange (start s rnd) = onScoreChange s"
  "onGameOver (start s rnd) = onGameOver s"
  "gridSize (start s rnd) = gridSize s"
  "isRunning (start s rnd) = True"
  "isPaused (start s rnd) = False"
  by (auto simp add: start_def setInterval_def Let_def)

lemma handleStartGame_fields [simp]:
  "cols (handleStartGame s rnd) = cols s"
  "rows (handleStartGame s rnd) = rows s"
  "speed (handleStartGame s rnd) = 120"
  "onScoreChange (handleStartGame s rnd) = onScoreChange s"
  "onGameOver (handleStartGame s rnd) = onGameOver s"
  "gridSize (handleStartGame s rnd) = gridSize s"
  "isRunning (handleStartGame s rnd) = True"
  "isPaused (handleStartGame s rnd) = False"
  by (simp_all add: handleStartGame_def)

subsection \<open>The three cases of a tick\<close>

text \<open>
  A call of \<^verbatim>\<open>update\<close> that does not throw ends the game, eats the food, or moves the
  snake; it throws exactly when the snake is empty, or the food is null and the new head
  passes the two collision tests.
\<close>

lemma update_collides:
  "snake s \<noteq> [] \<Longrightarrow> collides s \<Longrightarrow>
   update s rnd = Inr (gameOver (s\<lparr>direction := spread (nextDirection s)\<rparr>))"
  by (auto simp add: update_def collides_def next_head_def Let_def split: list.splits)

lemma update_eats:
  "eats s \<Longrightarrow> next_head s = Some n \<Longrightarrow>
   update s rnd =
     Inr (animate (do_draw (eat (s\<lparr>direction := spread (nextDirection s), snake := n # snake s\<rparr>) rnd)))"
  by (auto simp add: update_def eats_def collides_def next_head_def Let_def
      split: list.splits option.splits)

lemma update_moves:
  "next_head s = Some n \<Longrightarrow> food s \<noteq> None \<Longrightarrow> \<not> collides s \<Longrightarrow> \<not> eats s \<Longrightarrow>
   update s rnd =
     Inr (animate (do_draw (s\<lparr>direction := spread (nextDirection s), snake := n # butlast (snake s)\<rparr>)))"
  by (auto simp add: update_def eats_def collides_def next_head_def Let_def
      split: list.splits option.splits)

lemma update_throws:
  "(update s rnd = Inl e) = (snake s = [] \<or> (\<not> collides s \<and> food s = None))"
  by (cases e)
     (auto simp add: update_def collides_def next_head_def Let_def
      split: list.splits option.splits)

lemma update_Inr_cases:
  assumes "update s rnd = Inr s'"
  shows "(collides s \<and> s' = gameOver (s\<lparr>direction := spread (nextDirection s)\<rparr>)) \<or>
         (\<exists>n. next_head s = Some n \<and> eats s \<and>
              s' = animate (do_draw (eat (s\<lparr>direction := spread (nextDirection s), snake := n # snake s\<rparr>) rnd))) \<or>
         (\<exists>n. next_head s = Some n \<and> \<not> collides s \<and> \<not> eats s \<and> snake s \<noteq> [] \<and>
              s' = animate (do_draw (s\<lparr>direction := spread (nextDirection s), snake := n # butlast (snake s)\<rparr>)))"
proof -
  from assms have ne: "snake s \<noteq> []" and fd: "collides s \<or> food s \<noteq> None"
    using update_throws [of s rnd TypeError] by auto
  from ne obtain n where n: "next_head s = Some n"
    by (cases "snake s") (simp_all add: next_head_def)
  show ?thesis
  proof (cases "collides s")
    case True
    with ne assms show ?thesis by (simp add: update_collides)
  next
    case nc: False
    with fd have f: "food s \<noteq> None" by simp
    show ?thesis
    proof (cases "eats s")
      case True
      with n assms show ?thesis by (simp add: update_eats)
    next
      case False
      with n nc f ne assms show ?thesis by (simp add: update_moves)
    qed
  qed
qed

subsection \<open>The discipline of the timer\<close>

text \<open>
  \<open>timer_ok\<close> holds after the constructor and is kept by every command and by every
  tick that an active interval fires.  So a tick in a reachable state never throws.
\<close>

lemma init_food:
  "food (init s rnd) =
     Some (fst (generateFood_loop
       [(Num (cols s div 2), Num (rows s div 2)), (Num (cols s div 2 - 1), Num (rows s div 2)),
        (Num (cols s div 2 - 2), Num (rows s div 2))]
       (cols s) (rows s) rnd 0))"
  by (simp add: init_def Let_def)

lemma timer_ok_new: "timer_ok ((new_game w h)\<lparr>onScoreChange := a, onGameOver := b\<rparr>)"
  by (simp add: timer_ok_def new_game_def)

lemma timer_ok_init: "timer_ok s \<Longrightarrow> timer_ok (init s rnd)"
  by (simp add: timer_ok_def init_food split: option.splits)

lemma timer_ok_setDirection: "timer_ok s \<Longrightarrow> timer_ok (setDirection s d)"
  by (simp add: timer_ok_def split: option.splits)

lemma timer_ok_pause: "timer_ok s \<Longrightarrow> timer_ok (pause s)"
  by (auto simp add: timer_ok_def pause_def clearInterval_def Let_def split: option.splits)

lemma timer_ok_resume: "timer_ok s \<Longrightarrow> timer_ok (resume s)"
  by (auto simp add: timer_ok_def resume_def setInterval_def Let_def split: option.splits)

lemma stop_timers:
  "timer_ok s \<Longrightarrow> gameLoop (stop s) = None \<and> timers (stop s) = []"
  by (auto simp add: timer_ok_def stop_def clearInterval_def Let_def split: option.splits)

lemma timer_ok_stop: "timer_ok s \<Longrightarrow> timer_ok (stop s)"
  using stop_timers [of s] by (simp add: timer_ok_def)

lemma timer_ok_start: "timer_ok s \<Longrightarrow> timer_ok (start s rnd)"
  by (auto simp add: timer_ok_def start_def setInterval_def Let_def init_food split: option.splits)

lemma timer_ok_handleStartGame: "timer_ok s \<Longrightarrow> timer_ok (handleStartGame s rnd)"
proof -
  assume "timer_ok s"
  then have "timer_ok (s\<lparr>speed := 120\<rparr>)"
    by (simp add: timer_ok_def split: option.splits)
  then show ?thesis
    unfolding handleStartGame_def by (rule timer_ok_start)
qed

lemma timer_ok_exec: "timer_ok s \<Longrightarrow> timer_ok (exec c s)"
  by (cases c)
     (simp_all add: timer_ok_init timer_ok_start timer_ok_pause timer_ok_resume timer_ok_stop
        timer_ok_setDirection timer_ok_handleStartGame)

lemma timer_ok_direction: "timer_ok s \<Longrightarrow> timer_ok (s\<lparr>direction := d\<rparr>)"
  by (simp add: timer_ok_def split: option.splits)

lemma timer_ok_gameOver: "timer_ok s \<Longrightarrow> timer_ok (gameOver s)"
  using stop_timers [of s] by (simp add: timer_ok_def)

lemma eat_timers:
  "timer_ok s \<Longrightarrow> gameLoop s \<noteq> None \<Longrightarrow> timer_ok (eat s rnd)"
  by (auto simp add: timer_ok_def eat_def setInterval_def clearInterval_def Let_def
      split: option.splits)

lemma timer_ok_active: "timer_ok s \<Longrightarrow> timers s \<noteq> [] \<Longrightarrow> gameLoop s \<noteq> None"
  by (cases "gameLoop s") (simp_all add: timer_ok_def)

lemma timer_ok_update:
  assumes "timer_ok s" and "timers s \<noteq> []" and "update s rnd = Inr s'"
  shows "timer_ok s'"
  using update_Inr_cases [OF assms(3)]
proof (elim disjE exE conjE)
  assume "s' = gameOver (s\<lparr>direction := spread (nextDirection s)\<rparr>)"
  with assms(1) show ?thesis by (simp add: timer_ok_gameOver timer_ok_direction)
next
  fix n
  assume "s' = animate (do_draw (eat (s\<lparr>direction := spread (nextDirection s), snake := n # snake s\<rparr>) rnd))"
  moreover have "timer_ok (s\<lparr>direction := spread (nextDirection s), snake := n # snake s\<rparr>)"
    using assms(1) by (simp add: timer_ok_def split: option.splits)
  then have "timer_ok (eat (s\<lparr>direction := spread (nextDirection s), snake := n # snake s\<rparr>) rnd)"
    using timer_ok_active [OF assms(1,2)] by (intro eat_timers) simp_all
  ultimately show ?thesis by (simp add: timer_ok_def animate_food split: option.splits)
next
  fix n
  assume "s' = animate (do_draw (s\<lparr>direction := spread (nextDirection s), snake := n # butlast (snake s)\<rparr>))"
  with assms(1) show ?thesis by (simp add: timer_ok_def animate_food split: option.splits)
qed

lemma reachable_timer_ok: "reachable s \<Longrightarrow> timer_ok s"
  by (induction rule: reachable.induct)
     (simp_all add: timer_ok_new timer_ok_exec timer_ok_update)


subsection \<open>The sampling loop\<close>

text \<open>
  The loop that starts with \<^verbatim>\<open>attempts = a\<close> stops at some iteration \<open>k\<close> below 100:
  it returns the sample of that iteration and \<open>k + 1\<close>, every sample before it was on
  the snake, and if the returned one is on the snake too then \<open>k\<close> was the last
  iteration allowed.
\<close>

lemma sample_food_scale: "food_scale (sample_food c r u) = 0"
  by (simp add: sample_food_def split: prod.splits)

lemma generateFood_loop_result:
  "attempts < maxAttempts \<Longrightarrow>
   \<exists>k. attempts \<le> k \<and> k < maxAttempts \<and>
       generateFood_loop sn c r rnd attempts = (sample_food c r (rnd k), k + 1) \<and>
       (\<forall>j. attempts \<le> j \<and> j < k \<longrightarrow> on_snake sn c r (rnd j)) \<and>
       (on_snake sn c r (rnd k) \<longrightarrow> k + 1 = maxAttempts)"
proof (induction sn c r rnd attempts rule: generateFood_loop.induct)
  case (1 sn c r rnd attempts)
  show ?case
  proof (cases "on_snake sn c r (rnd attempts) \<and> attempts + 1 < maxAttempts")
    case True
    then have again: "generateFood_loop sn c r rnd attempts = generateFood_loop sn c r rnd (attempts + 1)"
      by (subst generateFood_loop.simps) (simp add: on_snake_def)
    from True "1.IH" obtain k where k: "attempts + 1 \<le> k" "k < maxAttempts"
      "generateFood_loop sn c r rnd (attempts + 1) = (sample_food c r (rnd k), k + 1)"
      "\<forall>j. attempts + 1 \<le> j \<and> j < k \<longrightarrow> on_snake sn c r (rnd j)"
      "on_snake sn c r (rnd k) \<longrightarrow> k + 1 = maxAttempts"
      unfolding on_snake_def by blast
    have "\<forall>j. attempts \<le> j \<and> j < k \<longrightarrow> on_snake sn c r (rnd j)"
    proof (intro allI impI)
      fix j assume j: "attempts \<le> j \<and> j < k"
      show "on_snake sn c r (rnd j)"
      proof (cases "j = attempts")
        case True
        with \<open>on_snake sn c r (rnd attempts) \<and> attempts + 1 < maxAttempts\<close> show ?thesis by simp
      next
        case False
        with j have "attempts + 1 \<le> j \<and> j < k" by simp
        with k(4) show ?thesis by blast
      qed
    qed
    with k again show ?thesis
      by (intro exI [of _ k]) simp
  next
    case False
    then have last: "generateFood_loop sn c r rnd attempts = (sample_food c r (rnd attempts), attempts + 1)"
      by (subst generateFood_loop.simps) (auto simp add: on_snake_def)
    from False "1.prems" have "on_snake sn c r (rnd attempts) \<longrightarrow> attempts + 1 = maxAttempts"
      by auto
    with last "1.prems" show ?thesis
      by (intro exI [of _ attempts]) auto
  qed
qed

lemma generateFood_loop_first:
  "\<not> on_snake sn c r (rnd 0) \<Longrightarrow> generateFood_loop sn c r rnd 0 = (sample_food c r (rnd 0), 1)"
  by (subst generateFood_loop.simps) (simp add: on_snake_def)

subsection \<open>The example game on the 10 by 10 grid\<close>

lemma east_sample:
  "sample_food 10 10 (east_rnd i) =
     \<lparr>food_x = 6, food_y = 5, food_type = Some Apple, food_scale = 0\<rparr>"
  by (simp add: sample_food_def east_rnd_def types_def)

lemma fresh_game_fields [simp]:
  "cols fresh_game = 10" "rows fresh_game = 10" "gridSize fresh_game = 20"
  "onScoreChange fresh_game" "onGameOver fresh_game" "speed fresh_game = 120"
  "\<not> isRunning fresh_game" "\<not> isPaused fresh_game" "gameLoop fresh_game = None"
  "timers fresh_game = []" "next_timer fresh_game = 1" "events fresh_game = []"
  "direction fresh_game = Some (1, 0)" "nextDirection fresh_game = Own (1, 0)"
  by (simp_all add: fresh_game_def new_game_def)

lemma init_fresh_food:
  "food (init fresh_game east_rnd) =
     Some \<lparr>food_x = 6, food_y = 5, food_type = Some Apple, food_scale = 0\<rparr>"
proof -
  have "\<not> on_snake [(Num 5, Num 5), (Num 4, Num 5), (Num 3, Num 5)] 10 10 (east_rnd 0)"
    by (simp add: on_snake_def east_sample isOnSnake_def)
  then show ?thesis
    by (simp add: init_food generateFood_loop_first east_sample)
qed

subsection \<open>The scale factor of the food sprite\<close>

text \<open>
  For a food whose scale is not 0, \<^verbatim>\<open>draw\<close> scales the sprite by the food's scale and
  sets a glow of 15 times the scale.
\<close>

lemma draw_scale_nonzero:
  "food s = Some f \<Longrightarrow> food_scale f \<noteq> 0 \<Longrightarrow>
   Scale (food_scale f) (food_scale f) \<in> set (draw s) \<and>
   ShadowBlur (15 * food_scale f) \<in> set (draw s)"
  by (simp add: draw_def draw_scale_def Let_def)

subsection \<open>The paused example\<close>

lemma paused_game_fields [simp]:
  "isRunning paused_game" "isPaused paused_game"
  "direction paused_game = Some (1, 0)" "nextDirection paused_game = Own (1, 0)"
  by (simp_all add: paused_game_def start_def setInterval_def pause_def clearInterval_def Let_def)

subsection \<open>What a tick does to single fields\<close>


lemma update_speed:
  assumes "update s rnd = Inr s'"
  shows "speed s' = (if eats s \<and> 60 < speed s then speed s - 2 else speed s)"
  using update_Inr_cases [OF assms] by (auto simp add: eats_def split: option.splits)

lemma update_score_snake:
  assumes "update s rnd = Inr s'"
  shows "(collides s \<and> score s' = score s \<and> snake s' = snake s) \<or>
         (\<not> collides s \<and> eats s \<and> score s' = score s + 10 \<and>
            length (snake s') = length (snake s) + 1) \<or>
         (\<not> collides s \<and> \<not> eats s \<and> score s' = score s \<and>
            length (snake s') = length (snake s))"
  using update_Inr_cases [OF assms]
  by (auto simp add: eats_def split: option.splits)

subsection \<open>Invariants of the direction, the speed and the score\<close>






lemma speed_ok_exec: "speed_ok s \<Longrightarrow> speed_ok (exec c s)"
  by (cases c) (simp_all add: speed_ok_def)

lemma reachable_speed_ok: "reachable s \<Longrightarrow> speed_ok s"
proof (induction rule: reachable.induct)
  case (constructed width height sc go)
  show ?case by (simp add: speed_ok_def new_game_def)
next
  case (command s c)
  then show ?case by (simp add: speed_ok_exec)
next
  case (tick s rnd s')
  from tick.IH update_speed [OF tick.hyps(3)] show ?case
    by (auto simp add: speed_ok_def)
qed

lemma start_score: "score_ok s \<Longrightarrow> score_ok (start s rnd)"
  by (auto simp add: score_ok_def start_def setInterval_def Let_def)

lemma score_ok_exec: "score_ok s \<Longrightarrow> score_ok (exec c s)"
proof (cases c)
  case (HandleStartGame rnd)
  assume "score_ok s"
  then have "score_ok (s\<lparr>speed := 120\<rparr>)" by (simp add: score_ok_def)
  then show ?thesis
    unfolding HandleStartGame by (simp add: handleStartGame_def start_score)
qed (simp_all add: start_score, simp_all add: score_ok_def)

lemma score_ok_update:
  assumes "score_ok s" and "update s rnd = Inr s'"
  shows "score_ok s'"
  using assms(1) update_score_snake [OF assms(2)]
  by (auto simp add: score_ok_def)

lemma in_game_score_ok: "in_game s \<Longrightarrow> score_ok s"
proof (induction rule: in_game.induct)
  case (initial s rnd)
  show ?case by (simp add: score_ok_def)
next
  case (command s c)
  then show ?case by (simp add: score_ok_exec)
next
  case (tick s rnd s')
  then show ?case by (simp add: score_ok_update)
qed

subsection \<open>No timer, no tick\<close>

text \<open>
  Only \<^verbatim>\<open>start\<close> and \<^verbatim>\<open>resume\<close> create an interval, and no command calls the game-over
  callback.
\<close>

lemma exec_no_timer:
  "timers s = [] \<Longrightarrow> \<not> restarts c \<Longrightarrow> timers (exec c s) = []"
  by (cases c) (simp_all add: pause_def stop_def clearInterval_def Let_def split: option.splits)

lemma fold_exec_no_timer:
  "timers s = [] \<Longrightarrow> \<not> list_ex restarts cs \<Longrightarrow> timers (fold exec cs s) = []"
  by (induction cs arbitrary: s) (simp_all add: exec_no_timer)

lemma idle_exec: "idle s \<Longrightarrow> \<not> starts c \<Longrightarrow> idle (exec c s)"
  by (cases c) (simp_all add: idle_def pause_def resume_def stop_def)

lemma fold_exec_idle: "idle s \<Longrightarrow> \<not> list_ex starts cs \<Longrightarrow> idle (fold exec cs s)"
  by (induction cs arbitrary: s) (simp_all add: idle_exec)

lemma exec_game_overs: "game_overs (exec c s) = game_overs s"
proof (cases c)
  case (HandleStartGame rnd)
  then show ?thesis
    by (simp add: game_overs_def handleStartGame_def start_def setInterval_def init_def Let_def
        do_draw_def generateFood_def)
next
  case (Init rnd)
  then show ?thesis by (simp add: game_overs_def init_def Let_def do_draw_def generateFood_def)
next
  case (Start rnd)
  then show ?thesis
    by (simp add: game_overs_def start_def setInterval_def init_def Let_def do_draw_def
        generateFood_def)
qed (simp_all add: game_overs_def)

lemma fold_exec_game_overs: "game_overs (fold exec cs s) = game_overs s"
  by (induction cs arbitrary: s) (simp_all add: exec_game_overs)

subsection \<open>Ticks that eat and ticks that move\<close>

lemma generateFood_loop_scale: "food_scale (fst (generateFood_loop sn c r rnd 0)) = 0"
proof -
  have "(0::nat) < maxAttempts" by (simp add: maxAttempts_def)
  from generateFood_loop_result [OF this, of sn c r rnd] show ?thesis
    by (auto simp add: sample_food_scale)
qed

lemma next_head_Some: "next_head s = Some n \<Longrightarrow> snake s \<noteq> []"
  by (auto simp add: next_head_def split: list.splits)

lemma tick_eats:
  assumes "next_head s = Some n" and "food s = Some f" and "\<not> collides s"
    and "n = (Num (food_x f), Num (food_y f))"
  shows "\<exists>s'. update s rnd = Inr s' \<and>
          score s' = score s + 10 \<and>
          (\<exists>frame. events s' =
             events s @ (if onScoreChange s then [ScoreChange (score s + 10)] else []) @
             [Draw frame]) \<and>
          food s' = Some ((fst (generateFood_loop (n # snake s) (cols s) (rows s) rnd 0))
                            \<lparr>food_scale := 3 / 20\<rparr>) \<and>
          snake s' = n # snake s \<and>
          length (snake s') = length (snake s) + 1"
proof -
  from assms have e: "eats s" by (simp add: eats_def)
  let ?grown = "s\<lparr>direction := spread (nextDirection s), snake := n # snake s\<rparr>"
  have "food (animate (do_draw (eat ?grown rnd))) =
          Some ((fst (generateFood_loop (n # snake s) (cols s) (rows s) rnd 0))
                  \<lparr>food_scale := 3 / 20\<rparr>)"
    by (simp add: animate_def generateFood_loop_scale)
  with update_eats [OF e assms(1), of rnd] show ?thesis by simp
qed

lemma tick_moves:
  assumes "next_head s = Some n" and "food s = Some f" and "\<not> collides s"
    and "n \<noteq> (Num (food_x f), Num (food_y f))"
  shows "\<exists>s'. update s rnd = Inr s' \<and>
          score s' = score s \<and>
          (\<exists>frame. events s' = events s @ [Draw frame]) \<and>
          map_option food_x (food s') = Some (food_x f) \<and>
          map_option food_y (food s') = Some (food_y f) \<and>
          snake s' = n # butlast (snake s) \<and>
          length (snake s') = length (snake s)"
proof -
  from assms have e: "\<not> eats s" by (auto simp add: eats_def prod_eq_iff)
  from assms(1) have ne: "snake s \<noteq> []" by (rule next_head_Some)
  from assms(2) have f: "food s \<noteq> None" by simp
  let ?moved = "s\<lparr>direction := spread (nextDirection s), snake := n # butlast (snake s)\<rparr>"
  have "map_option food_x (food (animate (do_draw ?moved))) = Some (food_x f) \<and>
        map_option food_y (food (animate (do_draw ?moved))) = Some (food_y f)"
    using assms(2) by (simp add: animate_def do_draw_def)
  with update_moves [OF assms(1) f assms(3) e, of rnd] ne show ?thesis by simp
qed

subsection \<open>Further example states\<close>

lemma start_from_idle:
  "\<not> isRunning s \<Longrightarrow> \<not> isPaused s \<Longrightarrow>
   start s rnd =
     (init s rnd)\<lparr>isRunning := True, timers := timers s @ [(next_timer s, speed s)],
                   next_timer := next_timer s + 1, gameLoop := Some (next_timer s)\<rparr>"
  by (simp add: start_def setInterval_def Let_def)

lemma fresh_game_reachable: "reachable fresh_game"
  unfolding fresh_game_def by (rule reachable.constructed)

lemma started_game_reachable: "reachable started_game"
  using reachable.command [OF fresh_game_reachable, of "Start east_rnd"]
  by (simp add: started_game_def)

lemma started_game_fields [simp]:
  "snake started_game = [(Num 5, Num 5), (Num 4, Num 5), (Num 3, Num 5)]"
  "food started_game = Some \<lparr>food_x = 6, food_y = 5, food_type = Some Apple, food_scale = 0\<rparr>"
  "cols started_game = 10" "rows started_game = 10"
  "direction started_game = Some (1, 0)" "nextDirection started_game = Own (1, 0)"
  "score started_game = 0" "speed started_game = 120"
  "timers started_game = [(1, 120)]" "gameLoop started_game = Some 1"
  "isRunning started_game" "\<not> isPaused started_game"
  "onScoreChange started_game" "onGameOver started_game"
  by (simp_all add: started_game_def start_from_idle init_fresh_food)

lemma started_game_next [simp]:
  "next_head started_game = Some (Num 6, Num 5)" "\<not> collides started_game" "eats started_game"
  by (simp_all add: next_head_def collides_def eats_def isOnSnake_def)

lemma west_sample:
  "sample_food 10 10 (west_rnd i) =
     \<lparr>food_x = 1, food_y = 5, food_type = Some Bird, food_scale = 0\<rparr>"
  by (simp add: sample_food_def west_rnd_def types_def)

lemma west_game_fields [simp]:
  "snake west_game = [(Num 5, Num 5), (Num 4, Num 5), (Num 3, Num 5)]"
  "food west_game = Some \<lparr>food_x = 1, food_y = 5, food_type = Some Bird, food_scale = 0\<rparr>"
  "cols west_game = 10" "rows west_game = 10"
  "nextDirection west_game = Own (1, 0)" "score west_game = 0"
proof -
  have "\<not> on_snake [(Num 5, Num 5), (Num 4, Num 5), (Num 3, Num 5)] 10 10 (west_rnd 0)"
    by (simp add: on_snake_def west_sample isOnSnake_def)
  then have "food (init fresh_game west_rnd) =
      Some \<lparr>food_x = 1, food_y = 5, food_type = Some Bird, food_scale = 0\<rparr>"
    by (simp add: init_food generateFood_loop_first west_sample)
  then show
    "snake west_game = [(Num 5, Num 5), (Num 4, Num 5), (Num 3, Num 5)]"
    "food west_game = Some \<lparr>food_x = 1, food_y = 5, food_type = Some Bird, food_scale = 0\<rparr>"
    "cols west_game = 10" "rows west_game = 10"
    "nextDirection west_game = Own (1, 0)" "score west_game = 0"
    by (simp_all add: west_game_def start_from_idle)
qed

lemma west_game_next [simp]:
  "next_head west_game = Some (Num 6, Num 5)" "\<not> collides west_game"
  by (simp_all add: next_head_def collides_def isOnSnake_def)

lemma tiny_game_reachable: "reachable tiny_game"
  using reachable.command [OF reachable.constructed [where width = 20 and height = 20 and sc = True and go = True], of "Start east_rnd"]
  by (simp add: tiny_game_def)

lemma tiny_game_fields [simp]:
  "snake tiny_game = [(Num 0, Num 0), (Num (- 1), Num 0), (Num (- 2), Num 0)]"
  "cols tiny_game = 1" "rows tiny_game = 1"
  "nextDirection tiny_game = Own (1, 0)"
  "score tiny_game = 0"
  "timers tiny_game = [(1, 120)]"
  "onGameOver tiny_game"
  by (simp_all add: tiny_game_def start_from_idle new_game_def)

lemma tiny_game_collides [simp]: "collides tiny_game"
  by (simp add: collides_def next_head_def)

subsection \<open>Clearing the one active interval\<close>

lemma filter_only_timer:
  "map fst ts = [h] \<Longrightarrow> filter (\<lambda>t. fst t \<noteq> h) ts = []"
  by (cases ts) auto

lemma gameOver_active:
  assumes "timer_ok s" and "timers s \<noteq> []"
  shows "gameOver s =
           s\<lparr>isRunning := False, isPaused := False, gameLoop := None, timers := [],
             events := events s @ (if onGameOver s then [GameOver (score s)] else [])\<rparr>"
proof -
  from assms obtain h where h: "gameLoop s = Some h" "0 < h" "map fst (timers s) = [h]"
    by (cases "gameLoop s") (auto simp add: timer_ok_def)
  from h(3) have "filter (\<lambda>t. fst t \<noteq> h) (timers s) = []"
    by (rule filter_only_timer)
  with h show ?thesis
    by (simp add: gameOver_def stop_def clearInterval_def Let_def)
qed

lemma game_overs_append:
  "game_overs (s\<lparr>events := events s @ es\<rparr>) = game_overs s + length (filter is_GameOver es)"
  by (simp add: game_overs_def)

subsection \<open>Commands between two ticks\<close>

lemma started_game_timers: "timers started_game \<noteq> []"
  by simp






lemma west_game_timers [simp]: "timers west_game = [(1, 120)]" "direction west_game = Some (1, 0)"
  by (simp_all add: west_game_def start_from_idle)


subsection \<open>The example game after its first meal\<close>

lemma fed_game_eq:
  "fed_game =
     animate (do_draw (eat (started_game\<lparr>direction := Some (1, 0),
                                          snake := (Num 6, Num 5) # snake started_game\<rparr>)
                           west_rnd))"
  using update_eats [of started_game "(Num 6, Num 5)" west_rnd]
  by (simp add: fed_game_def)

lemma fed_game_tick: "update started_game west_rnd = Inr fed_game"
  using update_eats [of started_game "(Num 6, Num 5)" west_rnd]
  by (simp add: fed_game_eq)

lemma fed_game_fields [simp]:
  "snake fed_game = [(Num 6, Num 5), (Num 5, Num 5), (Num 4, Num 5), (Num 3, Num 5)]"
  "score fed_game = 10" "speed fed_game = 118"
  "timers fed_game = [(2, 118)]" "gameLoop fed_game = Some 2" "next_timer fed_game = 3"
  "isRunning fed_game" "\<not> isPaused fed_game"
  by (simp_all add: fed_game_eq eat_def setInterval_def clearInterval_def Let_def
      started_game_def start_from_idle)

lemma fed_game_reachable: "reachable fed_game"
proof -
  have "timers started_game \<noteq> []" by simp
  with started_game_reachable show ?thesis
    using fed_game_tick by (rule reachable.tick)
qed

subsection \<open>The timer after a meal\<close>

text \<open>
  In a reachable state, a tick that eats while the interval is above 60 leaves exactly
  one active timer, and its period is the new interval, 2 below the old one.
\<close>

lemma eating_tick_restarts_timer:
  assumes "reachable s" and "timers s \<noteq> []" and "eats s" and "60 < speed s"
    and "update s rnd = Inr s'"
  shows "speed s' = speed s - 2 \<and> map snd (timers s') = [speed s - 2]"
proof -
  from assms(1) have ok: "timer_ok s" by (rule reachable_timer_ok)
  from ok assms(2) obtain h where h: "gameLoop s = Some h" "map fst (timers s) = [h]"
    by (cases "gameLoop s") (auto simp add: timer_ok_def)
  from h(2) have gone: "filter (\<lambda>t. fst t \<noteq> h) (timers s) = []"
    by (rule filter_only_timer)
  from assms(3) obtain n where n: "next_head s = Some n"
    by (auto simp add: eats_def split: option.splits)
  from update_eats [OF assms(3) n, of rnd] assms(5)
  have "s' = animate (do_draw (eat (s\<lparr>direction := spread (nextDirection s),
                                        snake := n # snake s\<rparr>) rnd))"
    by simp
  with h(1) gone assms(4) show ?thesis
    by (simp add: eat_def setInterval_def clearInterval_def Let_def)
qed

subsection \<open>Names that the tables inherit\<close>

text \<open>
  \<^verbatim>\<open>setDirection\<close> with a name that the table of directions inherits stores the
  inherited member as the pending direction; the next tick then applies the empty
  object, and the head of the snake becomes \<^verbatim>\<open>NaN\<close>.
\<close>

lemma setDirection_inherited_name:
  "nextDirection (setDirection started_game ''constructor'') = Inherited ''constructor'' \<and>
   next_head (setDirection started_game ''constructor'') = Some (NaN, NaN)"
  by (simp add: setDirection_def directions_def object_get_def object_prototype_keys_def
      next_head_def)

subsection \<open>Adding a score to a record that has a list of scores\<close>

text \<open>
  When \<^verbatim>\<open>getUser\<close> finds nothing, \<^verbatim>\<open>addScore\<close> returns with the storage as it was.
  When it finds a record with a list of scores, it saves the user with the new record in
  front of the first 19 old ones; where the storage accepts the write, the saved user is
  what \<^verbatim>\<open>getUser\<close> then returns, and the other users and the current user are unchanged.
\<close>

lemma addScore_on_record:
  "(getUser ls username = None \<longrightarrow> addScore ls username sc now = Inr ls) \<and>
   (getUser ls username = Some (Own u) \<and> scores u = Some old \<longrightarrow>
      addScore ls username sc now =
        Inr (saveUser ls username
               (u\<lparr>scores := Some (\<lparr>rec_score = sc, rec_date = now\<rparr> # take 19 old)\<rparr>)) \<and>
      length (\<lparr>rec_score = sc, rec_date = now\<rparr> # take 19 old) \<le> 20 \<and>
      (writable ls \<longrightarrow>
         getUser (saveUser ls username u') username = Some (Own u') \<and>
         (\<forall>other. other \<noteq> username \<longrightarrow>
            getUser (saveUser ls username u') other = getUser ls other) \<and>
         currentUser (getData (saveUser ls username u')) = currentUser (getData ls)))"
  by (auto simp add: addScore_def getUser_def saveUser_def saveData_def getData_def Let_def
      object_get_def split: option.splits stored.splits if_splits)

subsection \<open>Pausing\<close>

lemma pause_twice: "pause (pause s) = pause s"
  by (simp add: pause_def clearInterval_def Let_def split: option.splits)

lemma pause_cancels:
  assumes "timer_ok s"
  shows "gameLoop (pause s) = None \<and> timers (pause s) = []"
proof (cases "isRunning s \<and> \<not> isPaused s")
  case True
  show ?thesis
  proof (cases "gameLoop s")
    case None
    with assms True show ?thesis
      by (simp add: pause_def clearInterval_def Let_def timer_ok_def)
  next
    case (Some h)
    with assms have "map fst (timers s) = [h]" by (simp add: timer_ok_def)
    then have "filter (\<lambda>t. fst t \<noteq> h) (timers s) = []" by (rule filter_only_timer)
    with True Some show ?thesis
      by (simp add: pause_def clearInterval_def Let_def)
  qed
next
  case False
  with assms have "gameLoop s = None" by (auto simp add: timer_ok_def)
  with assms False show ?thesis
    by (auto simp add: pause_def timer_ok_def)
qed

section \<open>The properties\<close>

subsection \<open>Growth and score on a tick\<close>

text \<open>
  Claim C1.  Take a tick that does not end the game (the case of claim C2): the new head
  \<open>n\<close> is inside the grid and on no snake cell.  If \<open>n\<close> is the food cell, the tick
  adds exactly 10 to the score, calls the score callback (when one is registered) with
  the new score before it draws the frame, replaces the food by a newly generated one
  (whose scale the animation step at the end of the tick moves from 0 to 0.15) and keeps
  the tail, so that the snake is the old snake with \<open>n\<close> in front, one cell longer.
  Otherwise the score and the food cell stay, the last cell is dropped and the length
  is unchanged.  In particular, on a 10 by 10 grid with the snake at (5,5), (4,5), (3,5)
  heading right, the food at (6,5) and score 0, one tick gives head (6,5), score 10,
  length 4 and the tail cell (3,5) still in place, whatever the random source yields.
\<close>

theorem tick_grows_on_food_else_moves:
  "(next_head s = Some n \<and> food s = Some f \<and> \<not> collides s \<longrightarrow>
      (\<exists>s'. update s rnd = Inr s' \<and>
         (if n = (Num (food_x f), Num (food_y f))
          then score s' = score s + 10 \<and>
               (\<exists>frame. events s' =
                  events s @ (if onScoreChange s then [ScoreChange (score s + 10)] else []) @
                  [Draw frame]) \<and>
               food s' = Some ((fst (generateFood_loop (n # snake s) (cols s) (rows s) rnd 0))
                                 \<lparr>food_scale := 3 / 20\<rparr>) \<and>
               snake s' = n # snake s \<and>
               length (snake s') = length (snake s) + 1
          else score s' = score s \<and>
               (\<exists>frame. events s' = events s @ [Draw frame]) \<and>
               map_option food_x (food s') = Some (food_x f) \<and>
               map_option food_y (food s') = Some (food_y f) \<and>
               snake s' = n # butlast (snake s) \<and>
               length (snake s') = length (snake s)))) \<and>
   (cols t = 10 \<and> rows t = 10 \<and> snake t = [(Num 5, Num 5), (Num 4, Num 5), (Num 3, Num 5)] \<and>
    nextDirection t = Own (1, 0) \<and> food t = Some g \<and> food_x g = 6 \<and> food_y g = 5 \<and>
    score t = 0 \<longrightarrow>
      (\<exists>t'. update t rnd = Inr t' \<and> hd (snake t') = (Num 6, Num 5) \<and> score t' = 10 \<and>
         length (snake t') = 4 \<and> last (snake t') = (Num 3, Num 5)))"
proof (intro conjI impI)
  assume a: "next_head s = Some n \<and> food s = Some f \<and> \<not> collides s"
  then have h: "next_head s = Some n" and f: "food s = Some f" and c: "\<not> collides s"
    by blast+
  show "\<exists>s'. update s rnd = Inr s' \<and>
         (if n = (Num (food_x f), Num (food_y f))
          then score s' = score s + 10 \<and>
               (\<exists>frame. events s' =
                  events s @ (if onScoreChange s then [ScoreChange (score s + 10)] else []) @
                  [Draw frame]) \<and>
               food s' = Some ((fst (generateFood_loop (n # snake s) (cols s) (rows s) rnd 0))
                                 \<lparr>food_scale := 3 / 20\<rparr>) \<and>
               snake s' = n # snake s \<and>
               length (snake s') = length (snake s) + 1
          else score s' = score s \<and>
               (\<exists>frame. events s' = events s @ [Draw frame]) \<and>
               map_option food_x (food s') = Some (food_x f) \<and>
               map_option food_y (food s') = Some (food_y f) \<and>
               snake s' = n # butlast (snake s) \<and>
               length (snake s') = length (snake s))"
  proof (cases "n = (Num (food_x f), Num (food_y f))")
    case True
    show ?thesis
      unfolding if_P [OF True] by (rule tick_eats [OF h f c True])
  next
    case False
    show ?thesis
      unfolding if_not_P [OF False] by (rule tick_moves [OF h f c False])
  qed
next
  assume b: "cols t = 10 \<and> rows t = 10 \<and> snake t = [(Num 5, Num 5), (Num 4, Num 5), (Num 3, Num 5)] \<and>
    nextDirection t = Own (1, 0) \<and> food t = Some g \<and> food_x g = 6 \<and> food_y g = 5 \<and> score t = 0"
  then have sn: "snake t = [(Num 5, Num 5), (Num 4, Num 5), (Num 3, Num 5)]" and g: "food t = Some g"
    and sc: "score t = 0" and at: "(Num 6, Num 5) = (Num (food_x g), Num (food_y g))"
    by simp_all
  from b have h: "next_head t = Some (Num 6, Num 5)"
    by (simp add: next_head_def)
  from b h have c: "\<not> collides t"
    by (simp add: collides_def isOnSnake_def)
  from tick_eats [OF h g c at, of rnd] obtain t' where
    u: "update t rnd = Inr t'" and s10: "score t' = score t + 10"
    and grown: "snake t' = (Num 6, Num 5) # snake t"
    by blast
  from grown sn have "snake t' = [(Num 6, Num 5), (Num 5, Num 5), (Num 4, Num 5), (Num 3, Num 5)]" by simp
  then have "hd (snake t') = (Num 6, Num 5) \<and> length (snake t') = 4 \<and> last (snake t') = (Num 3, Num 5)"
    by simp
  with u s10 sc
  show "\<exists>t'. update t rnd = Inr t' \<and> hd (snake t') = (Num 6, Num 5) \<and> score t' = 10 \<and>
         length (snake t') = 4 \<and> last (snake t') = (Num 3, Num 5)"
    by (intro exI [of _ t']) simp
qed
theorem tick_grows_on_food_else_moves_witness:
  "next_head started_game = Some (Num 6, Num 5) \<and>
   food started_game = Some \<lparr>food_x = 6, food_y = 5, food_type = Some Apple, food_scale = 0\<rparr> \<and>
   \<not> collides started_game \<and>
   (\<exists>s'. update started_game west_rnd = Inr s' \<and> score s' = 10 \<and>
      snake s' = [(Num 6, Num 5), (Num 5, Num 5), (Num 4, Num 5), (Num 3, Num 5)]) \<and>
   next_head west_game = Some (Num 6, Num 5) \<and>
   food west_game = Some \<lparr>food_x = 1, food_y = 5, food_type = Some Bird, food_scale = 0\<rparr> \<and>
   \<not> collides west_game \<and>
   (\<exists>s'. update west_game east_rnd = Inr s' \<and> score s' = 0 \<and>
      snake s' = [(Num 6, Num 5), (Num 5, Num 5), (Num 4, Num 5)])"
proof -
  let ?apple = "\<lparr>food_x = 6, food_y = 5, food_type = Some Apple, food_scale = 0\<rparr>"
  let ?bird = "\<lparr>food_x = 1, food_y = 5, food_type = Some Bird, food_scale = 0\<rparr>"
  have pre1: "next_head started_game = Some (Num 6, Num 5) \<and> food started_game = Some ?apple \<and>
      \<not> collides started_game"
    by simp
  have pre2: "next_head west_game = Some (Num 6, Num 5) \<and> food west_game = Some ?bird \<and>
      \<not> collides west_game"
    by simp
  have at: "(Num 6, Num 5) = (Num (food_x ?apple), Num (food_y ?apple))" by simp
  have off: "(Num 6, Num 5) \<noteq> (Num (food_x ?bird), Num (food_y ?bird))" by simp
  from tick_grows_on_food_else_moves
         [of started_game "(Num 6, Num 5)" ?apple west_rnd started_game ?apple, THEN conjunct1,
          rule_format, OF pre1, unfolded if_P [OF at]]
  obtain s1 where 1: "update started_game west_rnd = Inr s1" "score s1 = score started_game + 10"
      "snake s1 = (Num 6, Num 5) # snake started_game"
    by blast
  from tick_grows_on_food_else_moves
         [of west_game "(Num 6, Num 5)" ?bird east_rnd started_game ?apple, THEN conjunct1,
          rule_format, OF pre2, unfolded if_not_P [OF off]]
  obtain s2 where 2: "update west_game east_rnd = Inr s2" "score s2 = score west_game"
      "snake s2 = (Num 6, Num 5) # butlast (snake west_game)"
    by blast
  from 1 have "\<exists>s'. update started_game west_rnd = Inr s' \<and> score s' = 10 \<and>
      snake s' = [(Num 6, Num 5), (Num 5, Num 5), (Num 4, Num 5), (Num 3, Num 5)]"
    by (intro exI [of _ s1]) simp
  moreover from 2 have "\<exists>s'. update west_game east_rnd = Inr s' \<and> score s' = 0 \<and>
      snake s' = [(Num 6, Num 5), (Num 5, Num 5), (Num 4, Num 5)]"
    by (intro exI [of _ s2]) simp
  ultimately show ?thesis using pre1 pre2 by blast
qed

subsection \<open>The tick that ends the game\<close>

text \<open>
  Claim C2.  Let a tick fire in a reachable state (so an interval is active) in which
  the new head, the head moved by the direction that this tick applies, is outside the
  grid or on a snake cell.  Then \<^verbatim>\<open>update\<close> returns the state before the tick with the
  pending direction applied, both flags cleared, the timer handle null, no interval
  active, and one game-over event carrying the score (when the callback is registered);
  nothing else differs, in particular the snake and the score, and no frame is drawn.
  No interval is active afterwards, whatever commands other than \<^verbatim>\<open>start\<close> follow, so
  no further tick can call the callback; the log gains no further game-over event until
  \<^verbatim>\<open>start\<close> begins the next game with \<^verbatim>\<open>init\<close>.
\<close>

theorem collision_tick_ends_game:
  assumes "reachable s" and "timers s \<noteq> []" and "collides s"
  shows "\<exists>s'. update s rnd = Inr s' \<and>
           s' = s\<lparr>direction := spread (nextDirection s), isRunning := False, isPaused := False,
                  gameLoop := None, timers := [],
                  events := events s @ (if onGameOver s then [GameOver (score s)] else [])\<rparr> \<and>
           snake s' = snake s \<and> score s' = score s \<and>
           game_overs s' = game_overs s + (if onGameOver s then 1 else 0) \<and>
           (\<forall>cs. \<not> list_ex starts cs \<longrightarrow>
              timers (fold exec cs s') = [] \<and>
              \<not> isRunning (fold exec cs s') \<and> \<not> isPaused (fold exec cs s') \<and>
              game_overs (fold exec cs s') = game_overs s')"
proof -
  let ?s' = "s\<lparr>direction := spread (nextDirection s), isRunning := False, isPaused := False,
                gameLoop := None, timers := [],
                events := events s @ (if onGameOver s then [GameOver (score s)] else [])\<rparr>"
  from assms(1) have ok: "timer_ok s" by (rule reachable_timer_ok)
  from ok assms(2) have ne: "snake s \<noteq> []"
    by (cases "gameLoop s") (auto simp add: timer_ok_def)
  have ok': "timer_ok (s\<lparr>direction := spread (nextDirection s)\<rparr>)"
    using ok by (rule timer_ok_direction)
  have "gameOver (s\<lparr>direction := spread (nextDirection s)\<rparr>) = ?s'"
    using gameOver_active [OF ok'] assms(2) by simp
  with update_collides [OF ne assms(3), of rnd] have u: "update s rnd = Inr ?s'"
    by simp
  have idle: "idle ?s'" by (simp add: idle_def)
  have after: "\<forall>cs. \<not> list_ex starts cs \<longrightarrow>
              timers (fold exec cs ?s') = [] \<and>
              \<not> isRunning (fold exec cs ?s') \<and> \<not> isPaused (fold exec cs ?s') \<and>
              game_overs (fold exec cs ?s') = game_overs ?s'"
  proof (intro allI impI)
    fix cs assume "\<not> list_ex starts cs"
    with idle have "idle (fold exec cs ?s')" by (rule fold_exec_idle)
    then show "timers (fold exec cs ?s') = [] \<and>
              \<not> isRunning (fold exec cs ?s') \<and> \<not> isPaused (fold exec cs ?s') \<and>
              game_overs (fold exec cs ?s') = game_overs ?s'"
      by (simp add: idle_def fold_exec_game_overs)
  qed
  have count: "game_overs ?s' = game_overs s + (if onGameOver s then 1 else 0)"
    by (simp add: game_overs_def)
  have keep: "snake ?s' = snake s \<and> score ?s' = score s" by simp
  from u count keep after show ?thesis
    by (intro exI [of _ ?s']) blast
qed

theorem collision_tick_ends_game_witness:
  "reachable tiny_game \<and> timers tiny_game \<noteq> [] \<and> collides tiny_game \<and>
   (\<exists>s'. update tiny_game east_rnd = Inr s' \<and>
      snake s' = [(Num 0, Num 0), (Num (- 1), Num 0), (Num (- 2), Num 0)] \<and> score s' = 0 \<and> timers s' = [] \<and>
      \<not> isRunning s' \<and> game_overs s' = game_overs tiny_game + 1)"
proof -
  have t: "timers tiny_game \<noteq> []" by simp
  from collision_tick_ends_game [OF tiny_game_reachable t tiny_game_collides, of east_rnd]
  obtain s' where s': "update tiny_game east_rnd = Inr s'"
    "s' = tiny_game\<lparr>direction := spread (nextDirection tiny_game), isRunning := False,
           isPaused := False, gameLoop := None, timers := [],
           events := events tiny_game @
             (if onGameOver tiny_game then [GameOver (score tiny_game)] else [])\<rparr>"
    "game_overs s' = game_overs tiny_game + (if onGameOver tiny_game then 1 else 0)"
    by blast
  from s'(2) have "snake s' = [(Num 0, Num 0), (Num (- 1), Num 0), (Num (- 2), Num 0)] \<and> score s' = 0 \<and> timers s' = [] \<and>
      \<not> isRunning s'"
    by simp
  with s'(1,3) have "\<exists>s'. update tiny_game east_rnd = Inr s' \<and>
      snake s' = [(Num 0, Num 0), (Num (- 1), Num 0), (Num (- 2), Num 0)] \<and> score s' = 0 \<and> timers s' = [] \<and>
      \<not> isRunning s' \<and> game_overs s' = game_overs tiny_game + 1"
    by (intro exI [of _ s']) simp
  with tiny_game_reachable t tiny_game_collides show ?thesis by blast
qed

subsection \<open>Reversal of the direction\<close>



subsection \<open>The tick interval\<close>

text \<open>
  Claim C4 fails on the code.  A started game eats once: the interval goes from 120 to
  118, in the field and in the period of the active timer.  The player pauses and clicks
  the start button, which the page has relabelled to restart.  \<^verbatim>\<open>handleStartGame\<close> sets
  \<^verbatim>\<open>speed\<close> to 120 and calls \<^verbatim>\<open>start\<close>, which on a paused game only resumes: the
  same game (same snake, score 10) goes on with a timer of period 120, above the 118 it
  had.  Clicked while the game runs, the button raises the field to 120 and leaves the
  timer at 118, since \<^verbatim>\<open>start\<close> returns at once.
\<close>

theorem restart_button_raises_interval:
  "speed started_game = 120 \<and> timers started_game = [(1, 120)] \<and>
   update started_game west_rnd = Inr fed_game \<and>
   speed fed_game = 118 \<and> timers fed_game = [(2, 118)] \<and>
   score fed_game = 10 \<and> length (snake fed_game) = 4 \<and>
   timers (handlePauseGame fed_game) = [] \<and>
   speed (handleStartGame (handlePauseGame fed_game) east_rnd) = 120 \<and>
   timers (handleStartGame (handlePauseGame fed_game) east_rnd) = [(3, 120)] \<and>
   snake (handleStartGame (handlePauseGame fed_game) east_rnd) = snake fed_game \<and>
   score (handleStartGame (handlePauseGame fed_game) east_rnd) = 10 \<and>
   speed (handleStartGame fed_game east_rnd) = 120 \<and>
   timers (handleStartGame fed_game east_rnd) = [(2, 118)] \<and>
   snake (handleStartGame fed_game east_rnd) = snake fed_game"
  by (simp add: fed_game_tick handleStartGame_def handlePauseGame_def
      start_def pause_def setInterval_def clearInterval_def Let_def)

subsection \<open>Rendering of the food\<close>

text \<open>
  Claim C5.  The scale factor that \<^verbatim>\<open>draw\<close> applies is \<^verbatim>\<open>this.food.scale || 1\<close>, and
  0 is falsy: a food whose scale is 0 is drawn at factor 1 with the full glow of 15, not
  as an invisible point.  Here on the frame that \<^verbatim>\<open>init\<close> draws for a 200 by 200 pixel
  canvas, right after \<^verbatim>\<open>generateFood\<close> has set the scale of the new food to 0.
\<close>

theorem draw_new_food_at_full_size:
  "map_option food_scale (food (init fresh_game east_rnd)) = Some 0 \<and>
   draw (init fresh_game east_rnd) =
     [ShadowColor ''#d946ef'', ShadowBlur 15, Save, Translate 130 110, Scale 1 1,
      DrawImage ''apple'' (- 10) (- 10) 20 20, Restore, ShadowBlur 0] \<and>
   last (events (init fresh_game east_rnd)) = Draw (draw (init fresh_game east_rnd))"
proof -
  have frame: "draw (init fresh_game east_rnd) =
     [ShadowColor ''#d946ef'', ShadowBlur 15, Save, Translate 130 110, Scale 1 1,
      DrawImage ''apple'' (- 10) (- 10) 20 20, Restore, ShadowBlur 0]"
    by (simp add: draw_def init_fresh_food draw_scale_def foodImg_def Let_def)
  have "events (init fresh_game east_rnd) =
          [ScoreChange 0, Draw (draw (generateFood (fresh_game\<lparr>snake := [(Num 5, Num 5), (Num 4, Num 5), (Num 3, Num 5)],
             direction := Some (1, 0), nextDirection := Own (1, 0), score := 0,
             events := [ScoreChange 0]\<rparr>) east_rnd))]"
    by (simp add: init_def Let_def)
  moreover have "draw (init fresh_game east_rnd) =
      draw (generateFood (fresh_game\<lparr>snake := [(Num 5, Num 5), (Num 4, Num 5), (Num 3, Num 5)],
             direction := Some (1, 0), nextDirection := Own (1, 0), score := 0,
             events := [ScoreChange 0]\<rparr>) east_rnd)"
    by (simp add: init_def Let_def draw_def do_draw_def)
  ultimately have "last (events (init fresh_game east_rnd)) = Draw (draw (init fresh_game east_rnd))"
    by simp
  with frame show ?thesis by (simp add: init_fresh_food)
qed

subsection \<open>Direction input and the phase\<close>

text \<open>
  Claim C6, as stated, fails: \<^verbatim>\<open>setDirection\<close> does not read \<^verbatim>\<open>isRunning\<close> or
  \<^verbatim>\<open>isPaused\<close>.  On a game that was never started, and on a paused game, it records
  the new pending direction.
\<close>

theorem setDirection_ignores_phase:
  "\<not> isRunning fresh_game \<and> nextDirection fresh_game = Own (1, 0) \<and>
   nextDirection (setDirection fresh_game ''up'') = Own (0, - 1) \<and>
   isPaused paused_game \<and> nextDirection paused_game = Own (1, 0) \<and>
   nextDirection (setDirection paused_game ''down'') = Own (0, 1)"
  by (simp add: setDirection_def directions_tokens)

text \<open>
  Claim C6, amended.  The test of the phase is made by the two input handlers of
  UIController that call \<^verbatim>\<open>setDirection\<close>: when the game is not running or is paused,
  \<^verbatim>\<open>handleKeyDown\<close> and the click handler of the mobile controls leave the game as it
  is.  \<^verbatim>\<open>setDirection\<close> itself, in every phase and for every argument, changes no field
  other than the pending direction; for \<open>d\<close> one of up, down, left and right it keeps the
  state when the vector of \<open>d\<close> is the exact opposite of the applied direction, and
  records that vector as the pending direction otherwise.
\<close>

theorem input_handlers_guard_setDirection:
  "(\<not> isRunning g \<or> isPaused g \<longrightarrow>
      handleKeyDown g key = g \<and> mobileControlClick g dir = g) \<and>
   (\<exists>pending. setDirection g dir = g\<lparr>nextDirection := pending\<rparr>) \<and>
   (dir \<in> set [''up'', ''down'', ''left'', ''right''] \<longrightarrow>
      (\<exists>v. directions dir = Some (Own v) \<and>
           setDirection g dir =
             (if opposite (direction g) (Some v) then g else g\<lparr>nextDirection := Own v\<rparr>)))"
proof (intro conjI impI)
  assume "\<not> isRunning g \<or> isPaused g"
  then show "handleKeyDown g key = g" and "mobileControlClick g dir = g"
    by (auto simp add: handleKeyDown_def mobileControlClick_def)
next
  show "\<exists>pending. setDirection g dir = g\<lparr>nextDirection := pending\<rparr>"
  proof (cases "setDirection g dir = g")
    case True
    then have "setDirection g dir = g\<lparr>nextDirection := nextDirection g\<rparr>" by simp
    then show ?thesis by blast
  next
    case False
    then obtain newDir where "setDirection g dir = g\<lparr>nextDirection := newDir\<rparr>"
      by (auto simp add: setDirection_def split: option.splits if_splits)
    then show ?thesis by blast
  qed
next
  assume "dir \<in> set [''up'', ''down'', ''left'', ''right'']"
  then consider "dir = ''up''" | "dir = ''down''" | "dir = ''left''" | "dir = ''right''"
    by auto
  then show "\<exists>v. directions dir = Some (Own v) \<and>
           setDirection g dir =
             (if opposite (direction g) (Some v) then g else g\<lparr>nextDirection := Own v\<rparr>)"
    by cases (simp_all add: setDirection_def directions_tokens opposite_def)
qed

theorem input_handlers_guard_setDirection_witness:
  "isPaused paused_game \<and> handleKeyDown paused_game ''ArrowUp'' = paused_game \<and>
   mobileControlClick paused_game ''up'' = paused_game \<and>
   ''up'' \<in> set [''up'', ''down'', ''left'', ''right''] \<and>
   setDirection paused_game ''up'' = paused_game\<lparr>nextDirection := Own (0, - 1)\<rparr>"
proof -
  note th = input_handlers_guard_setDirection [of paused_game "''ArrowUp''" "''up''"]
  have p: "isPaused paused_game" by simp
  have m: "''up'' \<in> set [''up'', ''down'', ''left'', ''right'']" by simp
  from th p have "handleKeyDown paused_game ''ArrowUp'' = paused_game \<and>
      mobileControlClick paused_game ''up'' = paused_game"
    by blast
  moreover from th m obtain v where "directions ''up'' = Some (Own v)"
    "setDirection paused_game ''up'' =
       (if opposite (direction paused_game) (Some v) then paused_game
        else paused_game\<lparr>nextDirection := Own v\<rparr>)"
    by blast
  then have "setDirection paused_game ''up'' = paused_game\<lparr>nextDirection := Own (0, - 1)\<rparr>"
    by (auto simp add: directions_tokens)
  ultimately show ?thesis using p m by blast
qed

subsection \<open>Food placement\<close>

text \<open>
  Claim C7.  \<^verbatim>\<open>generateFood\<close> is a total function (it returns for every source of
  samples and every snake, and has no failing branch).  It takes at least one and at
  most 100 samples, stores the last one as the food, with scale 0, and changes no other
  field.  If the stored cell is on the snake then all 100 samples were taken and every
  one of them was on the snake; so if any of the 100 samples is off the snake, the
  stored cell is off the snake.
\<close>

theorem generateFood_bounded_rejection:
  "(let placed = generateFood_loop (snake s) (cols s) (rows s) rnd 0
    in generateFood s rnd = s\<lparr>food := Some (fst placed)\<rparr> \<and>
       1 \<le> snd placed \<and> snd placed \<le> 100 \<and>
       fst placed = sample_food (cols s) (rows s) (rnd (snd placed - 1)) \<and>
       food_scale (fst placed) = 0 \<and>
       (isOnSnake (snake s) (Num (food_x (fst placed))) (Num (food_y (fst placed))) \<longrightarrow>
          snd placed = 100 \<and> (\<forall>i<100. on_snake (snake s) (cols s) (rows s) (rnd i))) \<and>
       ((\<exists>i<100. \<not> on_snake (snake s) (cols s) (rows s) (rnd i)) \<longrightarrow>
          \<not> isOnSnake (snake s) (Num (food_x (fst placed))) (Num (food_y (fst placed)))))"
proof -
  have "(0::nat) < maxAttempts" by (simp add: maxAttempts_def)
  from generateFood_loop_result [OF this, of "snake s" "cols s" "rows s" rnd]
  obtain k where k: "k < 100"
    and res: "generateFood_loop (snake s) (cols s) (rows s) rnd 0 =
                (sample_food (cols s) (rows s) (rnd k), k + 1)"
    and before: "\<forall>j<k. on_snake (snake s) (cols s) (rows s) (rnd j)"
    and final: "on_snake (snake s) (cols s) (rows s) (rnd k) \<longrightarrow> k + 1 = 100"
    by (auto simp add: maxAttempts_def)
  have all: "\<forall>i<100. on_snake (snake s) (cols s) (rows s) (rnd i)"
    if on: "on_snake (snake s) (cols s) (rows s) (rnd k)"
  proof (intro allI impI)
    fix i :: nat assume "i < 100"
    with on final have "i < k \<or> i = k" by auto
    with before on show "on_snake (snake s) (cols s) (rows s) (rnd i)" by auto
  qed
  from k res final all show ?thesis
    by (auto simp add: Let_def generateFood_def sample_food_scale on_snake_def)
qed

theorem generateFood_bounded_rejection_witness:
  "isOnSnake [(Num 5, Num 5), (Num 4, Num 5), (Num 3, Num 5)]
     (Num (food_x (fst (generateFood_loop [(Num 5, Num 5), (Num 4, Num 5), (Num 3, Num 5)] 10 10 stuck_rnd 0))))
     (Num (food_y (fst (generateFood_loop [(Num 5, Num 5), (Num 4, Num 5), (Num 3, Num 5)] 10 10 stuck_rnd 0)))) \<and>
   snd (generateFood_loop [(Num 5, Num 5), (Num 4, Num 5), (Num 3, Num 5)] 10 10 stuck_rnd 0) = 100 \<and>
   \<not> on_snake [(Num 5, Num 5), (Num 4, Num 5), (Num 3, Num 5)] 10 10 (late_rnd 1) \<and>
   \<not> isOnSnake [(Num 5, Num 5), (Num 4, Num 5), (Num 3, Num 5)]
     (Num (food_x (fst (generateFood_loop [(Num 5, Num 5), (Num 4, Num 5), (Num 3, Num 5)] 10 10 late_rnd 0))))
     (Num (food_y (fst (generateFood_loop [(Num 5, Num 5), (Num 4, Num 5), (Num 3, Num 5)] 10 10 late_rnd 0))))"
proof -
  let ?sn = "[(Num 5, Num 5), (Num 4, Num 5), (Num 3, Num 5)] :: cell list"
  let ?s = "(new_game 200 200)\<lparr>snake := ?sn\<rparr>"
  let ?stuck = "generateFood_loop ?sn 10 10 stuck_rnd 0"
  let ?late = "generateFood_loop ?sn 10 10 late_rnd 0"
  have fields: "snake ?s = ?sn" "cols ?s = 10" "rows ?s = 10"
    by (simp_all add: new_game_def)
  note stuck = generateFood_bounded_rejection [of ?s stuck_rnd, unfolded Let_def fields]
  note late = generateFood_bounded_rejection [of ?s late_rnd, unfolded Let_def fields]
  from stuck have "fst ?stuck = sample_food 10 10 (stuck_rnd (snd ?stuck - 1))"
    by blast
  then have "food_x (fst ?stuck) = 5 \<and> food_y (fst ?stuck) = 5"
    by (simp add: stuck_rnd_def sample_food_def)
  then have on: "isOnSnake ?sn (Num (food_x (fst ?stuck))) (Num (food_y (fst ?stuck)))"
    by (simp add: isOnSnake_def)
  with stuck have full: "snd ?stuck = 100"
    by blast
  have free: "\<not> on_snake ?sn 10 10 (late_rnd 1)"
    by (simp add: on_snake_def late_rnd_def sample_food_def isOnSnake_def)
  have "(1::nat) < 100" by simp
  with free have "\<exists>i<100. \<not> on_snake ?sn 10 10 (late_rnd i)"
    by blast
  with late have off: "\<not> isOnSnake ?sn (Num (food_x (fst ?late))) (Num (food_y (fst ?late)))"
    by blast
  from on full free off show ?thesis
    by (intro conjI)
qed

subsection \<open>Pausing and the timer\<close>

text \<open>
  Claim C8.  From any state, \<^verbatim>\<open>pause\<close> called twice gives the state that one call
  gives.  In every reachable state, when \<^verbatim>\<open>pause\<close> has returned the timer handle is null
  and no interval is active, and none becomes active through any commands other than
  \<^verbatim>\<open>start\<close> and \<^verbatim>\<open>resume\<close>; since a tick needs an active interval, no tick changes
  the score or the board until then.
\<close>

theorem pause_idempotent_and_cancels:
  "pause (pause s) = pause s \<and>
   (reachable t \<longrightarrow>
      gameLoop (pause t) = None \<and> timers (pause t) = [] \<and>
      (\<forall>cs. \<not> list_ex restarts cs \<longrightarrow> timers (fold exec cs (pause t)) = []))"
proof (intro conjI impI allI)
  show "pause (pause s) = pause s" by (rule pause_twice)
next
  assume "reachable t"
  then have "timer_ok t" by (rule reachable_timer_ok)
  then show "gameLoop (pause t) = None" and "timers (pause t) = []"
    using pause_cancels [of t] by simp_all
next
  fix cs
  assume "reachable t" and cs: "\<not> list_ex restarts cs"
  then have "timer_ok t" by (simp add: reachable_timer_ok)
  then have "timers (pause t) = []" using pause_cancels [of t] by simp
  then show "timers (fold exec cs (pause t)) = []"
    using cs by (rule fold_exec_no_timer)
qed

theorem pause_idempotent_and_cancels_witness:
  "reachable started_game \<and> timers started_game = [(1, 120)] \<and>
   pause (pause started_game) = pause started_game \<and>
   timers (pause started_game) = [] \<and>
   \<not> list_ex restarts [SetDirection ''up'', Pause, Stop] \<and>
   timers (fold exec [SetDirection ''up'', Pause, Stop] (pause started_game)) = []"
proof -
  note th = pause_idempotent_and_cancels [of started_game started_game]
  have n: "\<not> list_ex restarts [SetDirection ''up'', Pause, Stop]" by simp
  from th have "pause (pause started_game) = pause started_game" by blast
  moreover from th started_game_reachable have "timers (pause started_game) = []" by blast
  moreover from th started_game_reachable n
  have "timers (fold exec [SetDirection ''up'', Pause, Stop] (pause started_game)) = []"
    by blast
  ultimately show ?thesis using started_game_reachable n by simp
qed

subsection \<open>Score and length\<close>

text \<open>
  Claim C9.  \<^verbatim>\<open>init\<close> sets the length to 3 and the score to 0, and in every state that
  is reached from a call of \<^verbatim>\<open>init\<close> by ticks and commands (among them the ticks that
  do not end the game, of which the claim speaks) the score is 10 times the length of
  the snake minus 3.
\<close>

theorem score_counts_growth:
  "in_game s \<Longrightarrow> score s = 10 * (int (length (snake s)) - 3)"
  using in_game_score_ok [of s] by (simp add: score_ok_def)

theorem score_counts_growth_witness:
  "in_game (init fresh_game east_rnd) \<and>
   score (init fresh_game east_rnd) = 0 \<and>
   length (snake (init fresh_game east_rnd)) = 3 \<and>
   (\<exists>s'. update (init fresh_game east_rnd) west_rnd = Inr s' \<and> in_game s' \<and>
      length (snake s') = 4 \<and> score s' = 10)"
proof -
  let ?s = "init fresh_game east_rnd"
  have i: "in_game ?s" by (rule in_game.initial)
  have h: "next_head ?s = Some (Num 6, Num 5)" by (simp add: next_head_def)
  have c: "\<not> collides ?s" by (simp add: collides_def h isOnSnake_def)
  have at: "(Num 6, Num 5) =
      (Num (food_x \<lparr>food_x = 6, food_y = 5, food_type = Some Apple, food_scale = 0\<rparr>),
       Num (food_y \<lparr>food_x = 6, food_y = 5, food_type = Some Apple, food_scale = 0\<rparr>))"
    by simp
  from tick_eats [OF h init_fresh_food c at, of west_rnd]
  obtain s' where s': "update ?s west_rnd = Inr s'" "length (snake s') = length (snake ?s) + 1"
    by blast
  from i s'(1) have g: "in_game s'" by (rule in_game.tick)
  from score_counts_growth [OF g] s'(2) have "score s' = 10" by simp
  with s' g have "\<exists>s'. update ?s west_rnd = Inr s' \<and> in_game s' \<and>
      length (snake s') = 4 \<and> score s' = 10"
    by (intro exI [of _ s']) simp
  moreover from score_counts_growth [OF i] have "score ?s = 0" by simp
  ultimately show ?thesis using i by simp
qed

subsection \<open>Score records of the profile store\<close>

text \<open>
  Claim C10 fails on the code.  The storage holds one user, ann.  No record exists for
  the name toString, yet \<^verbatim>\<open>getUser\<close> returns the function that the object of users
  inherits under that name; it is truthy, so \<^verbatim>\<open>addScore\<close> does not return but goes on
  to \<^verbatim>\<open>user.scores.unshift\<close> and throws a TypeError.  And for a user whose record has
  no list of scores, \<^verbatim>\<open>addScore\<close> throws the same error where it should put the
  record in front.
\<close>

theorem addScore_throws:
  "users (getData demo_store) ''toString'' = None \<and>
   getUser demo_store ''toString'' = Some (Inherited ''toString'') \<and>
   addScore demo_store ''toString'' 50 ''d2'' = Inl TypeError \<and>
   getUser legacy_store ''ann'' = Some (Own legacy_user) \<and>
   scores legacy_user = None \<and>
   addScore legacy_store ''ann'' 50 ''d2'' = Inl TypeError"
  by (simp add: addScore_def getUser_def getData_def object_get_def object_prototype_keys_def
      demo_store_def legacy_store_def legacy_user_def)

end
